theory Spec2Isabelle
  imports Complex_Main
begin

section \<open>Numbers\<close>

text \<open>
  JavaScript numbers are modelled as exact reals: rounding error, NaN and the
  infinities of IEEE doubles are outside the model.
\<close>

definition js_round :: "real \<Rightarrow> real" where
  \<comment> \<open>\<open>Math.round\<close>: the nearest integer, halves towards plus infinity.\<close>
  "js_round v = of_int \<lfloor>v + 1 / 2\<rfloor>"

definition js_ceil :: "real \<Rightarrow> real" where
  "js_ceil v = of_int \<lceil>v\<rceil>"

definition js_or :: "real option \<Rightarrow> real \<Rightarrow> real" where
  \<comment> \<open>\<open>a || d\<close> on a number field that may be missing: \<open>undefined\<close> and \<open>0\<close> are falsy.\<close>
  "js_or a d = (case a of None \<Rightarrow> d | Some v \<Rightarrow> if v = 0 then d else v)"

section \<open>Grid and tile addressing\<close>

text \<open>A \<open>Tile\<close> is the grid position \<open>(gX, gY)\<close>; it stands for its own string key.\<close>

type_synonym Tile = "int \<times> int"

text \<open>
  \<open>Grid.js\<close> is not among the sources: the fields read by the player and the map
  (\<open>tileSize\<close>, \<open>widthGU\<close>, \<open>heightGU\<close>, \<open>borders\<close>) are parameters of the model.
\<close>

record Grid =
  tileSize :: real
  widthGU :: nat
  heightGU :: nat
  borders_left :: real
  borders_right :: real
  borders_bottom :: real

definition getTilePositionFromPixelPosition :: "Grid \<Rightarrow> real \<Rightarrow> real \<Rightarrow> Tile" where
  \<comment> \<open>Modelled from the spec: \<open>Grid.getTilePositionFromPixelPosition\<close> (Grid.js is missing);
      section 4.1: \<open>pixelToGrid(x,y)\<close> floors \<open>(x,y)/tileSize\<close>.\<close>
  "getTilePositionFromPixelPosition g px py = (\<lfloor>px / tileSize g\<rfloor>, \<lfloor>py / tileSize g\<rfloor>)"

definition displayGrid :: Grid where
  \<comment> \<open>\<open>new Grid(this.game, 50, 40, 40)\<close> of DisplayHandler; the borders are those of the
      40 by 40 world of 50-pixel tiles.\<close>
  "displayGrid = \<lparr>tileSize = 50, widthGU = 40, heightGU = 40,
     borders_left = 0, borders_right = 2000, borders_bottom = 2000\<rparr>"

section \<open>Map tiles\<close>

datatype TileType =
  BG_GRASS | GRASS | DIRT | COAL | SHOP | SAVE_STATION | SELLING_POST | FUEL_STATION | TELEPORTER

datatype TileClass =
  Grass | Dirt | Coal | Shop | SaveStation | SellingPost | FuelStation | Teleporter

record Properties =
  name :: string
  color :: string
  ptype :: TileType
  thickness :: real
  tile_value :: real
  interactable :: bool

record MapTile =
  cls :: TileClass
  mt_tile :: Tile
  properties :: Properties

text \<open>
  The classes Grass, Dirt and Coal are not among the sources; their property
  tables are a parameter of map generation.
\<close>

record Terrain =
  grassProps :: Properties
  dirtProps :: Properties
  coalProps :: Properties

definition shopProps :: Properties where
  "shopProps = \<lparr>name = ''Shop'', color = ''#4CAF50'', ptype = SHOP,
     thickness = 0, tile_value = 0, interactable = True\<rparr>"

definition saveStationProps :: Properties where
  "saveStationProps = \<lparr>name = ''Save Station'', color = ''#2196F3'', ptype = SAVE_STATION,
     thickness = 0, tile_value = 0, interactable = True\<rparr>"

definition sellingPostProps :: Properties where
  "sellingPostProps = \<lparr>name = ''Selling Post'', color = ''#FF9800'', ptype = SELLING_POST,
     thickness = 0, tile_value = 0, interactable = True\<rparr>"

definition fuelStationProps :: Properties where
  "fuelStationProps = \<lparr>name = ''Fuel Station'', color = ''#F44336'', ptype = FUEL_STATION,
     thickness = 0, tile_value = 0, interactable = True\<rparr>"

definition teleporterProps :: Properties where
  "teleporterProps = \<lparr>name = ''Teleporter'', color = ''#9C27B0'', ptype = TELEPORTER,
     thickness = 0, tile_value = 0, interactable = True\<rparr>"

fun classProps :: "Terrain \<Rightarrow> TileClass \<Rightarrow> Properties" where
  "classProps tr Grass = grassProps tr"
| "classProps tr Dirt = dirtProps tr"
| "classProps tr Coal = coalProps tr"
| "classProps tr Shop = shopProps"
| "classProps tr SaveStation = saveStationProps"
| "classProps tr SellingPost = sellingPostProps"
| "classProps tr FuelStation = fuelStationProps"
| "classProps tr Teleporter = teleporterProps"

definition newTile :: "Terrain \<Rightarrow> TileClass \<Rightarrow> Tile \<Rightarrow> MapTile" where
  \<comment> \<open>\<open>new Type(this, tile)\<close>\<close>
  "newTile tr c t = \<lparr>cls = c, mt_tile = t, properties = classProps tr c\<rparr>"

section \<open>Game state\<close>

datatype Direction = UP | DOWN | LEFT | RIGHT

record CargoItem =
  item_name :: string
  item_value :: real

datatype WpName = Custom string | Numbered nat

record Waypoint =
  wp_name :: WpName
  wp_x :: real
  wp_y :: real

datatype ItemId =
  FuelUpgrade | CargoUpgrade | SpeedUpgrade | DrillUpgrade | SellAll | Refuel | AddWaypoint
  | TeleportTo nat

datatype Label = Plain string | CountOf nat string | RefuelUnits real | TeleportLabel WpName

record Item =
  item_label :: Label
  price :: real
  item_id :: ItemId
  highlight :: bool

record UI =
  ui_title :: string
  ui_items :: "Item list"

datatype Message = Text string | SoldAll real | WaypointAdded WpName | TeleportedTo WpName

datatype Event = TileMove Tile | TileDestroy Tile

datatype Callback = FadeOutDone | DramaticDelay | FadeInDone

record PlayerData =
  pd_money :: "real option"
  pd_fuel :: "real option"
  pd_maxFuel :: "real option"
  pd_tank :: "real option"
  pd_position :: "(real \<times> real) option"
  pd_speedMultiplier :: "real option"
  pd_cargo :: "CargoItem list option"
  pd_cargoCapacity :: "real option"

record WorldData =
  wd_seed :: "real option"
  wd_waypoints :: "Waypoint list option"

record SaveData =
  sd_version :: "string option"
  sd_player :: "PlayerData option"
  sd_world :: "WorldData option"

record FlatSave =
  fs_money :: real
  fs_fuel :: real
  fs_maxFuel :: real
  fs_tank :: real
  fs_position :: "real \<times> real"
  fs_cargo :: "CargoItem list"
  fs_waypoints :: "Waypoint list"

text \<open>
  What \<open>localStorage\<close> holds under the save key: the flat object written by
  \<open>BuildingHandler.saveGame\<close> or the versioned one of \<open>SaveHandler.saveGame\<close>. The
  timestamps, which nothing reads back, are left out.
\<close>

datatype Stored = Flat FlatSave | Versioned SaveData

text \<open>
  One record for the object graph of a session: the player, its cargo hold, the
  map's foreground tiles, the building handler, and what the code sends out (events
  dispatched, messages shown, timers pending, the save slot).
\<close>

record Game =
  player_x :: real
  player_y :: real
  speed :: real
  speedMultiplier :: real
  tickEnabled :: bool
  canMove :: bool
  moving :: bool
  wasMoving :: bool
  isStopping :: bool
  targetPos :: "real \<times> real"
  tile :: Tile
  minetile :: "MapTile option"
  money :: real
  chargeReq :: real
  charge :: real
  maxFuel :: real
  tank :: real
  fuel :: real
  fuelDebounce :: bool
  facingDirection :: Direction
  hold_mapTiles :: "CargoItem list"
  hold_capacity :: real
  fg_tiles :: "Tile \<rightharpoonup> MapTile"
  seed :: real
  currentUI :: "string option"
  waypoints :: "Waypoint list"
  overlay :: "UI option"
  events :: "Event list"
  messages :: "Message list"
  timers :: "Callback list"
  localStorage :: "Stored option"

definition defaultSpeed :: real where
  "defaultSpeed = 222 / 1000"

definition horizonLineGU :: nat where
  "horizonLineGU = 8"

definition horizonLine :: "Grid \<Rightarrow> real" where
  "horizonLine g = real horizonLineGU * tileSize g"

section \<open>Cargo hold\<close>

definition addMapTile :: "MapTile \<Rightarrow> CargoItem list \<Rightarrow> CargoItem list" where
  \<comment> \<open>Modelled from the spec: \<open>PlayerHold.addMapTile\<close> (PlayerHold.js is missing);
      section 4.4: the hold is a list of tile snapshots (name, value), and
      \<open>addMapTile(tile)\<close> appends regardless of capacity.\<close>
  "addMapTile mt items =
     items @ [\<lparr>item_name = name (properties mt), item_value = tile_value (properties mt)\<rparr>]"

section \<open>Building handler\<close>

text \<open>
  Of the DOM only what the handler itself reads back or reacts to is kept: the
  overlay (its title and its entries, whose click handlers call \<open>handlePurchase\<close>) and
  the messages shown. Styles and the money display are left out.
\<close>

definition showMessage :: "Message \<Rightarrow> Game \<Rightarrow> Game" where
  "showMessage m s = s\<lparr>messages := messages s @ [m]\<rparr>"

definition createUI :: "string \<Rightarrow> Item list \<Rightarrow> Game \<Rightarrow> Game" where
  "createUI title items s = s\<lparr>overlay := Some \<lparr>ui_title = title, ui_items = items\<rparr>\<rparr>"

definition closeUI :: "Game \<Rightarrow> Game" where
  "closeUI s = s\<lparr>overlay := None, currentUI := None\<rparr>"

definition openShop :: "Game \<Rightarrow> Game" where
  "openShop s =
     (if currentUI s \<noteq> None then s
      else createUI ''Shop''
        [\<lparr>item_label = Plain ''Fuel Tank Upgrade'', price = 500, item_id = FuelUpgrade, highlight = False\<rparr>,
         \<lparr>item_label = Plain ''Cargo Hold Upgrade'', price = 750, item_id = CargoUpgrade, highlight = False\<rparr>,
         \<lparr>item_label = Plain ''Drill Speed Upgrade'', price = 1000, item_id = SpeedUpgrade, highlight = False\<rparr>,
         \<lparr>item_label = Plain ''Better Drill'', price = 2000, item_id = DrillUpgrade, highlight = False\<rparr>]
        (s\<lparr>currentUI := Some ''shop''\<rparr>))"

definition buildingSaveGame :: "Game \<Rightarrow> Game" where
  \<comment> \<open>\<open>BuildingHandler.saveGame\<close>\<close>
  "buildingSaveGame s =
     showMessage (Text ''Game Saved Successfully!'')
       (s\<lparr>localStorage := Some (Flat
          \<lparr>fs_money = money s, fs_fuel = fuel s, fs_maxFuel = maxFuel s, fs_tank = tank s,
           fs_position = (player_x s, player_y s), fs_cargo = hold_mapTiles s,
           fs_waypoints = waypoints s\<rparr>)\<rparr>)"

fun countItem :: "CargoItem \<Rightarrow> (string \<times> nat \<times> real) list \<Rightarrow> (string \<times> nat \<times> real) list" where
  "countItem it [] = [(item_name it, 1, item_value it)]"
| "countItem it ((n, c, v) # rest) =
     (if n = item_name it then (n, c + 1, v) # rest else (n, c, v) # countItem it rest)"

definition itemCounts :: "CargoItem list \<Rightarrow> (string \<times> nat \<times> real) list" where
  "itemCounts items = foldl (\<lambda>acc it. countItem it acc) [] items"

definition totalValue :: "CargoItem list \<Rightarrow> real" where
  \<comment> \<open>\<open>mapTiles.reduce((sum, item) => sum + item.value, 0)\<close>\<close>
  "totalValue items = foldl (\<lambda>sum it. sum + item_value it) 0 items"

definition openSellingPost :: "Game \<Rightarrow> Game" where
  "openSellingPost s =
     (if currentUI s \<noteq> None then s
      else if length (hold_mapTiles s) = 0 then showMessage (Text ''No items to sell!'') s
      else createUI ''Selling Post''
        (map (\<lambda>(n, c, v). \<lparr>item_label = CountOf c n, price = real c * v, item_id = SellAll,
                           highlight = False\<rparr>) (itemCounts (hold_mapTiles s))
         @ [\<lparr>item_label = Plain ''SELL ALL'', price = totalValue (hold_mapTiles s),
             item_id = SellAll, highlight = True\<rparr>])
        (s\<lparr>currentUI := Some ''selling''\<rparr>))"

definition openFuelStation :: "Game \<Rightarrow> Game" where
  "openFuelStation s =
     (if currentUI s \<noteq> None then s
      else let s1 = s\<lparr>currentUI := Some ''fuel''\<rparr>;
               fuelNeeded = maxFuel s1 - fuel s1;
               refuelCost = js_ceil (fuelNeeded * 2)
           in if fuelNeeded \<le> 0 then showMessage (Text ''Fuel tank is already full!'') s1
              else createUI ''Fuel Station''
                [\<lparr>item_label = RefuelUnits fuelNeeded, price = refuelCost, item_id = Refuel,
                  highlight = False\<rparr>] s1)"

definition openTeleporter :: "Game \<Rightarrow> Game" where
  "openTeleporter s =
     (if currentUI s \<noteq> None then s
      else createUI ''Teleporter''
        (\<lparr>item_label = Plain ''Add Current Location'', price = 100, item_id = AddWaypoint,
          highlight = False\<rparr>
         # map (\<lambda>(index, waypoint). \<lparr>item_label = TeleportLabel (wp_name waypoint), price = 50,
                  item_id = TeleportTo index, highlight = False\<rparr>)
               (zip [0 ..< length (waypoints s)] (waypoints s)))
        (s\<lparr>currentUI := Some ''teleporter''\<rparr>))"

fun handleBuildingInteraction :: "TileType \<Rightarrow> Game \<Rightarrow> Game" where
  "handleBuildingInteraction SHOP s = openShop s"
| "handleBuildingInteraction SAVE_STATION s = buildingSaveGame s"
| "handleBuildingInteraction SELLING_POST s = openSellingPost s"
| "handleBuildingInteraction FUEL_STATION s = openFuelStation s"
| "handleBuildingInteraction TELEPORTER s = openTeleporter s"
| "handleBuildingInteraction _ s = s"

definition onPlayerMove :: "Tile \<Rightarrow> Game \<Rightarrow> Game" where
  "onPlayerMove t s =
     (case fg_tiles s t of
        Some maptile \<Rightarrow>
          if interactable (properties maptile)
          then handleBuildingInteraction (ptype (properties maptile)) s else s
      | None \<Rightarrow> s)"

definition purchased :: "Message \<Rightarrow> Game \<Rightarrow> Game" where
  \<comment> \<open>the \<open>if (success)\<close> tail of \<open>handlePurchase\<close>\<close>
  "purchased message s = showMessage message s"

definition handlePurchase :: "Item \<Rightarrow> string option \<Rightarrow> Game \<Rightarrow> Game" where
  \<comment> \<open>the second argument is what \<open>prompt\<close> returns when the item asks for a name\<close>
  "handlePurchase item answer s =
     (if price item > money s then showMessage (Text ''Not enough money!'') s
      else case item_id item of
        FuelUpgrade \<Rightarrow>
          purchased (Text ''Fuel tank upgraded!'')
            (s\<lparr>maxFuel := maxFuel s + 5, money := money s - price item\<rparr>)
      | CargoUpgrade \<Rightarrow>
          purchased (Text ''Cargo hold upgraded!'')
            (s\<lparr>hold_capacity := hold_capacity s + 5, money := money s - price item\<rparr>)
      | SpeedUpgrade \<Rightarrow>
          purchased (Text ''Drill speed increased!'')
            (s\<lparr>speedMultiplier := speedMultiplier s + 2 / 10, money := money s - price item\<rparr>)
      | SellAll \<Rightarrow>
          (let total = totalValue (hold_mapTiles s)
           in purchased (SoldAll total)
                (closeUI (s\<lparr>money := money s + total, hold_mapTiles := []\<rparr>)))
      | Refuel \<Rightarrow>
          purchased (Text ''Fuel tank refilled!'')
            (s\<lparr>fuel := maxFuel s, money := money s - price item\<rparr>)
      | AddWaypoint \<Rightarrow>
          (let wname = (case answer of
                          None \<Rightarrow> Numbered (length (waypoints s) + 1)
                        | Some a \<Rightarrow> if a = [] then Numbered (length (waypoints s) + 1)
                                    else Custom a)
           in purchased (WaypointAdded wname)
                (closeUI (s\<lparr>waypoints := waypoints s @
                              [\<lparr>wp_name = wname, wp_x = player_x s, wp_y = player_y s\<rparr>],
                            money := money s - price item\<rparr>)))
      | TeleportTo index \<Rightarrow>
          (if index < length (waypoints s)
           then let waypoint = waypoints s ! index
                in purchased (TeleportedTo (wp_name waypoint))
                     (closeUI (s\<lparr>player_x := wp_x waypoint, player_y := wp_y waypoint,
                                 targetPos := (wp_x waypoint, wp_y waypoint),
                                 money := money s - price item\<rparr>))
           else s)
      | DrillUpgrade \<Rightarrow> s)"

section \<open>Player\<close>

text \<open>
  The sprite animation, the drill and boost modules and the depth and fuel displays
  do not feed back into the state and are left out. \<open>fade\<close> of the display handler is
  a timer that runs its callback; a pending timer is an entry of \<open>timers\<close>.
\<close>

definition resetPos :: "Grid \<Rightarrow> Game \<Rightarrow> Game" where
  "resetPos g s =
     (let nx = js_round (real (widthGU g) * tileSize g / 2);
          ny = horizonLine g - tileSize g
      in s\<lparr>player_x := nx, player_y := ny,
           tile := getTilePositionFromPixelPosition g nx ny,
           targetPos := (nx, ny),
           facingDirection := RIGHT, wasMoving := False, isStopping := False\<rparr>)"

definition checkDirection :: "string list \<Rightarrow> Direction option" where
  "checkDirection pressedKeys =
     (if ''ArrowUp'' \<in> set pressedKeys \<or> ''w'' \<in> set pressedKeys then Some UP
      else if ''ArrowDown'' \<in> set pressedKeys \<or> ''s'' \<in> set pressedKeys then Some DOWN
      else if ''ArrowLeft'' \<in> set pressedKeys \<or> ''a'' \<in> set pressedKeys then Some LEFT
      else if ''ArrowRight'' \<in> set pressedKeys \<or> ''d'' \<in> set pressedKeys then Some RIGHT
      else None)"

definition updateFuel :: "real \<Rightarrow> Game \<Rightarrow> Game" where
  "updateFuel amount s = s\<lparr>fuel := fuel s + amount\<rparr>"

definition outOfFuel :: "Game \<Rightarrow> Game" where
  \<comment> \<open>the synchronous part; \<open>fade(true, ...)\<close> leaves its callback on a timer\<close>
  "outOfFuel s =
     (if fuelDebounce s then s
      else s\<lparr>fuelDebounce := True, canMove := False, moving := False,
             timers := timers s @ [FadeOutDone]\<rparr>)"

fun runCallback :: "Grid \<Rightarrow> Callback \<Rightarrow> Game \<Rightarrow> Game" where
  "runCallback g FadeOutDone s =
     (let depth = js_round ((player_y s / tileSize g - 7) * 5);
          s1 = updateFuel 0 (s\<lparr>fuel := maxFuel s\<rparr>);
          s2 = s1\<lparr>money := money s1 - (depth + maxFuel s1)\<rparr>;
          s3 = resetPos g s2
      in s3\<lparr>timers := timers s3 @ [DramaticDelay]\<rparr>)"
| "runCallback g DramaticDelay s = s\<lparr>timers := timers s @ [FadeInDone]\<rparr>"
| "runCallback g FadeInDone s = s\<lparr>fuelDebounce := False, canMove := True\<rparr>"

definition fireTimer :: "Grid \<Rightarrow> Game \<Rightarrow> Game" where
  \<comment> \<open>the oldest pending timer runs out\<close>
  "fireTimer g s =
     (case timers s of [] \<Rightarrow> s | cb # rest \<Rightarrow> runCallback g cb (s\<lparr>timers := rest\<rparr>))"

definition neighbour :: "Direction \<Rightarrow> Tile \<Rightarrow> Tile" where
  "neighbour direction t =
     (case direction of
        UP \<Rightarrow> (fst t, snd t - 1)
      | DOWN \<Rightarrow> (fst t, snd t + 1)
      | LEFT \<Rightarrow> (fst t - 1, snd t)
      | RIGHT \<Rightarrow> (fst t + 1, snd t))"

definition nextTarget :: "Grid \<Rightarrow> Direction \<Rightarrow> real \<times> real \<Rightarrow> real \<times> real" where
  "nextTarget g direction tp =
     (case direction of
        UP \<Rightarrow>
          (let targetY = snd tp - tileSize g
           in (fst tp, if targetY < horizonLine g - tileSize g
                       then horizonLine g - tileSize g else targetY))
      | DOWN \<Rightarrow>
          (let targetY = snd tp + tileSize g; limit = borders_bottom g - tileSize g
           in (fst tp, if targetY > limit then limit else targetY))
      | LEFT \<Rightarrow>
          (let targetX = fst tp - tileSize g; limit = borders_left g
           in (if targetX < limit then limit else targetX, snd tp))
      | RIGHT \<Rightarrow>
          (let targetX = fst tp + tileSize g; limit = borders_right g - tileSize g
           in (if targetX > limit then limit else targetX, snd tp)))"

definition commitMove :: "Grid \<Rightarrow> Direction \<Rightarrow> MapTile option \<Rightarrow> Game \<Rightarrow> Game" where
  \<comment> \<open>the \<open>logic\<close> callback handed to \<open>kpCharge\<close>\<close>
  "commitMove g direction maptile s =
     (let s1 = s\<lparr>targetPos := nextTarget g direction (targetPos s)\<rparr>
      in if fst (targetPos s1) = player_x s1 \<and> snd (targetPos s1) = player_y s1 then s1
         else let s2 = s1\<lparr>moving := True, isStopping := False\<rparr>
              in case maptile of
                   Some mt \<Rightarrow>
                     s2\<lparr>speed := thickness (properties mt) / 100 * (defaultSpeed * speedMultiplier s2),
                        minetile := Some mt\<rparr>
                 | None \<Rightarrow>
                     if speed s2 \<noteq> defaultSpeed
                     then s2\<lparr>speed := defaultSpeed, minetile := None\<rparr> else s2)"

definition kpCharge :: "MapTile option \<Rightarrow> (Game \<Rightarrow> Game) \<Rightarrow> Game \<Rightarrow> Game" where
  "kpCharge maptile logic s =
     (let s1 = (if maptile = None \<or> charge s > chargeReq s then logic s else s)
      in if charge s1 \<le> chargeReq s1 then s1\<lparr>charge := charge s1 + 1\<rparr> else s1)"

definition handleInput :: "Grid \<Rightarrow> string list \<Rightarrow> Game \<Rightarrow> Game" where
  \<comment> \<open>the body of \<open>if (!this.moving && this.canMove)\<close>\<close>
  "handleInput g pressedKeys s =
     (case checkDirection pressedKeys of
        Some direction \<Rightarrow>
          (let maptile = fg_tiles s (neighbour direction (tile s))
           in kpCharge maptile (commitMove g direction maptile)
                (s\<lparr>facingDirection := direction\<rparr>))
      | None \<Rightarrow>
          (let s1 = (if charge s > 0 then s\<lparr>charge := 0\<rparr> else s)
           in if isStopping s1 then s1\<lparr>isStopping := False\<rparr> else s1))"

definition drainFuel :: "Grid \<Rightarrow> real \<Rightarrow> Game \<Rightarrow> Game" where
  "drainFuel g delta s =
     (if player_y s > horizonLine g - tileSize g + 5
      then (if minetile s \<noteq> None then updateFuel (- (1 / 5100) * delta) s
            else updateFuel (- (1 / 7000) * delta) s)
      else s)"

definition performMovement :: "real \<Rightarrow> Game \<Rightarrow> Game" where
  "performMovement delta s =
     (if fst (targetPos s) \<noteq> player_x s \<or> snd (targetPos s) \<noteq> player_y s
      then let diff = speed s * delta
           in case facingDirection s of
                UP \<Rightarrow> (let moveY = player_y s - diff
                       in s\<lparr>player_y := (if moveY < snd (targetPos s) then snd (targetPos s) else moveY)\<rparr>)
              | DOWN \<Rightarrow> (let moveY = player_y s + diff
                         in s\<lparr>player_y := (if moveY > snd (targetPos s) then snd (targetPos s) else moveY)\<rparr>)
              | LEFT \<Rightarrow> (let moveX = player_x s - diff
                         in s\<lparr>player_x := (if moveX < fst (targetPos s) then fst (targetPos s) else moveX)\<rparr>)
              | RIGHT \<Rightarrow> (let moveX = player_x s + diff
                          in s\<lparr>player_x := (if moveX > fst (targetPos s) then fst (targetPos s) else moveX)\<rparr>)
      else s)"

definition movementComplete :: "Game \<Rightarrow> bool" where
  "movementComplete s \<longleftrightarrow>
     (facingDirection s = UP \<and> player_y s \<le> snd (targetPos s)) \<or>
     (facingDirection s = DOWN \<and> player_y s \<ge> snd (targetPos s)) \<or>
     (facingDirection s = LEFT \<and> player_x s \<le> fst (targetPos s)) \<or>
     (facingDirection s = RIGHT \<and> player_x s \<ge> fst (targetPos s))"

definition dispatchEvent :: "Event \<Rightarrow> Game \<Rightarrow> Game" where
  \<comment> \<open>the event is recorded, and the building handler's \<open>tilemove\<close> listener runs at once\<close>
  "dispatchEvent e s =
     (let s1 = s\<lparr>events := events s @ [e]\<rparr>
      in case e of TileMove t \<Rightarrow> onPlayerMove t s1 | TileDestroy t \<Rightarrow> s1)"

definition arrive :: "Grid \<Rightarrow> Game \<Rightarrow> Game" where
  \<comment> \<open>the body of the movement-completion check\<close>
  "arrive g s =
     (let s1 = s\<lparr>player_x := fst (targetPos s), player_y := snd (targetPos s),
                 moving := False, isStopping := True\<rparr>;
          t = getTilePositionFromPixelPosition g (player_x s1) (player_y s1);
          s2 = s1\<lparr>tile := t\<rparr>
      in case fg_tiles s2 t of
           Some maptile \<Rightarrow>
             if interactable (properties maptile) then dispatchEvent (TileMove t) s2
             else (let s3 = s2\<lparr>hold_mapTiles := addMapTile maptile (hold_mapTiles s2)\<rparr>;
                       s4 = s3\<lparr>fg_tiles := (fg_tiles s3)(t := None)\<rparr>;
                       s5 = dispatchEvent (TileDestroy t) s4;
                       s6 = s5\<lparr>minetile := None\<rparr>
                   in dispatchEvent (TileMove t) s6)
         | None \<Rightarrow> dispatchEvent (TileMove t) s2)"

definition updateWasMoving :: "Game \<Rightarrow> Game" where
  "updateWasMoving s = (if wasMoving s \<noteq> moving s then s\<lparr>wasMoving := moving s\<rparr> else s)"

definition moveStep :: "Grid \<Rightarrow> real \<Rightarrow> Game \<Rightarrow> Game" where
  \<comment> \<open>the body of \<open>if (this.moving)\<close> after the fuel check\<close>
  "moveStep g delta s =
     (let s1 = drainFuel g delta s;
          s2 = performMovement delta s1
      in if movementComplete s2 then arrive g s2 else s2)"

definition pollInput :: "Grid \<Rightarrow> string list \<Rightarrow> Game \<Rightarrow> Game" where
  \<comment> \<open>\<open>if (!this.moving && this.canMove) { ... }\<close>\<close>
  "pollInput g pressedKeys s =
     (if \<not> moving s \<and> canMove s then handleInput g pressedKeys s else s)"

definition tick :: "Grid \<Rightarrow> string list \<Rightarrow> real \<Rightarrow> Game \<Rightarrow> Game" where
  "tick g pressedKeys delta s =
     (if \<not> tickEnabled s then s
      else if fuel s \<le> 0 then outOfFuel s
      else let s1 = pollInput g pressedKeys s
           in if moving s1
              then (if fuel s1 \<le> 0 then outOfFuel s1
                    else updateWasMoving (moveStep g delta s1))
              else updateWasMoving s1)"

section \<open>Save handler\<close>

definition saveGame :: "Game \<Rightarrow> bool \<times> Game" where
  \<comment> \<open>\<open>SaveHandler.saveGame\<close>\<close>
  "saveGame s =
     (True,
      s\<lparr>localStorage := Some (Versioned
         \<lparr>sd_version = Some ''1.0.0'',
          sd_player = Some
            \<lparr>pd_money = Some (money s), pd_fuel = Some (fuel s), pd_maxFuel = Some (maxFuel s),
             pd_tank = Some (tank s), pd_position = Some (player_x s, player_y s),
             pd_speedMultiplier = Some (speedMultiplier s),
             pd_cargo = Some (hold_mapTiles s), pd_cargoCapacity = Some (hold_capacity s)\<rparr>,
          sd_world = Some \<lparr>wd_seed = Some (seed s), wd_waypoints = Some (waypoints s)\<rparr>\<rparr>)\<rparr>)"

definition loadGame :: "Game \<Rightarrow> SaveData option" where
  "loadGame s =
     (case localStorage s of
        None \<Rightarrow> None
      | Some (Flat f) \<Rightarrow> None
      | Some (Versioned saveData) \<Rightarrow>
          if sd_version saveData = None \<or> sd_version saveData = Some [] \<or> sd_player saveData = None
          then None else Some saveData)"

definition applySaveData :: "Grid \<Rightarrow> SaveData \<Rightarrow> Game \<Rightarrow> bool \<times> Game" where
  \<comment> \<open>reading a field of a missing \<open>player\<close> or \<open>world\<close> object throws; the \<open>catch\<close>
      returns false with the assignments made so far in place\<close>
  "applySaveData g saveData s =
     (case sd_player saveData of
        None \<Rightarrow> (False, s)
      | Some p \<Rightarrow>
          (let s1 = s\<lparr>money := js_or (pd_money p) 300\<rparr>;
               s2 = s1\<lparr>fuel := js_or (pd_fuel p) (maxFuel s1)\<rparr>;
               s3 = s2\<lparr>maxFuel := js_or (pd_maxFuel p) 10\<rparr>;
               s4 = s3\<lparr>tank := js_or (pd_tank p) 0\<rparr>;
               s5 = s4\<lparr>speedMultiplier := js_or (pd_speedMultiplier p) 1\<rparr>;
               s6 = (case pd_position p of
                       Some pos \<Rightarrow>
                         s5\<lparr>player_x := fst pos, player_y := snd pos, targetPos := (fst pos, snd pos),
                            tile := getTilePositionFromPixelPosition g (fst pos) (snd pos)\<rparr>
                     | None \<Rightarrow> s5);
               s7 = (case pd_cargo p of Some c \<Rightarrow> s6\<lparr>hold_mapTiles := c\<rparr> | None \<Rightarrow> s6);
               s8 = (case pd_cargoCapacity p of
                       Some c \<Rightarrow> if c \<noteq> 0 then s7\<lparr>hold_capacity := c\<rparr> else s7
                     | None \<Rightarrow> s7)
           in case sd_world saveData of
                None \<Rightarrow> (False, s8)
              | Some w \<Rightarrow>
                  (True, case wd_waypoints w of Some ws \<Rightarrow> s8\<lparr>waypoints := ws\<rparr> | None \<Rightarrow> s8)))"

definition saveThenRestore :: "Grid \<Rightarrow> Game \<Rightarrow> Game \<Rightarrow> Game option" where
  \<comment> \<open>\<open>saveGame\<close> in the session \<open>s\<close>; \<open>loadGame\<close> and \<open>applySaveData\<close> in a session \<open>s'\<close>
      that sees the same save slot\<close>
  "saveThenRestore g s s' =
     (case loadGame (s'\<lparr>localStorage := localStorage (snd (saveGame s))\<rparr>) of
        None \<Rightarrow> None
      | Some saveData \<Rightarrow>
          Some (snd (applySaveData g saveData (s'\<lparr>localStorage := localStorage (snd (saveGame s))\<rparr>))))"

section \<open>Map generation\<close>

text \<open>
  The seeded generator is a parameter: \<open>rnd k\<close> is the value of the \<open>k\<close>-th call of
  \<open>Math.random()\<close> after seeding, and the generation state carries the number of
  calls made so far.
\<close>

type_synonym GenState = "(Tile \<rightharpoonup> MapTile) \<times> nat"

text \<open>
  What \<open>Map.js\<close> gets from \<open>require\<close> for a building class. Shop.js, SaveStation.js,
  SellingPost.js and Teleporter.js end with \<open>module.exports\<close> of their class.
  FuelStation.js declares its class and exports nothing, so \<open>require\<close> yields the
  empty object, and \<open>new building.type(this, t)\<close> on it throws a TypeError that
  nothing in \<open>generate\<close> or its callers catches.
\<close>

datatype Export = Class TileClass | EmptyObject

datatype Error = TypeError

definition surfaceBuildings :: "(Export \<times> nat) list" where
  "surfaceBuildings =
     [(Class Shop, 5), (Class SaveStation, 10), (Class SellingPost, 15), (EmptyObject, 25),
      (Class Teleporter, 30)]"

definition shouldGenType :: "string \<Rightarrow> nat \<Rightarrow> Tile \<Rightarrow> (nat \<Rightarrow> real) \<Rightarrow> nat \<Rightarrow> bool \<times> nat" where
  "shouldGenType type layer t rnd k =
     (if type = ''coal''
      then (if layer = 1 then (rnd k * 100 \<le> 75 / 10, Suc k) else (False, k))
      else (False, k))"

definition genType :: "Terrain \<Rightarrow> TileClass \<Rightarrow> Tile \<Rightarrow> (Tile \<rightharpoonup> MapTile) \<Rightarrow> (Tile \<rightharpoonup> MapTile)" where
  "genType tr c t fg = fg(t \<mapsto> newTile tr c t)"

definition genSurfaceCell ::
    "Terrain \<Rightarrow> Grid \<Rightarrow> nat \<Rightarrow> (Tile \<rightharpoonup> MapTile) \<Rightarrow> Error + (Tile \<rightharpoonup> MapTile)" where
  \<comment> \<open>the body of the surface loop\<close>
  "genSurfaceCell tr g i fg =
     (let t = (int i, int horizonLineGU)
      in case find (\<lambda>b. snd b = i) surfaceBuildings of
           Some building \<Rightarrow>
             if i < widthGU g
             then (case fst building of
                     Class c \<Rightarrow> Inr (fg(t \<mapsto> newTile tr c t))
                   | EmptyObject \<Rightarrow> Inl TypeError)
             else Inr (fg(t \<mapsto> newTile tr Grass t))
         | None \<Rightarrow> Inr (fg(t \<mapsto> newTile tr Grass t)))"

fun genSurfaceFrom ::
    "Terrain \<Rightarrow> Grid \<Rightarrow> nat list \<Rightarrow> (Tile \<rightharpoonup> MapTile) \<Rightarrow> Error + (Tile \<rightharpoonup> MapTile)" where
  \<comment> \<open>the surface loop over the columns still to do; an exception ends it\<close>
  "genSurfaceFrom tr g [] fg = Inr fg"
| "genSurfaceFrom tr g (i # rest) fg =
     (case genSurfaceCell tr g i fg of
        Inl e \<Rightarrow> Inl e
      | Inr fg' \<Rightarrow> genSurfaceFrom tr g rest fg')"

definition genSurface ::
    "Terrain \<Rightarrow> Grid \<Rightarrow> (Tile \<rightharpoonup> MapTile) \<Rightarrow> Error + (Tile \<rightharpoonup> MapTile)" where
  "genSurface tr g fg = genSurfaceFrom tr g [0 ..< widthGU g] fg"

definition genDirt :: "Terrain \<Rightarrow> Grid \<Rightarrow> (Tile \<rightharpoonup> MapTile) \<Rightarrow> (Tile \<rightharpoonup> MapTile)" where
  "genDirt tr g fg =
     fold (\<lambda>gY. fold (\<lambda>gX fg'. fg'((int gX, int gY) \<mapsto> newTile tr Dirt (int gX, int gY)))
                  [0 ..< widthGU g])
          [horizonLineGU + 1 ..< heightGU g] fg"

definition genCoalCell :: "Terrain \<Rightarrow> (nat \<Rightarrow> real) \<Rightarrow> nat \<Rightarrow> nat \<Rightarrow> GenState \<Rightarrow> GenState" where
  "genCoalCell tr rnd gX gY st =
     (let t = (int gX, int gY);
          r = shouldGenType ''coal'' 1 t rnd (snd st)
      in (if fst r then genType tr Coal t (fst st) else fst st, snd r))"

definition genCoalLayer :: "Terrain \<Rightarrow> Grid \<Rightarrow> (nat \<Rightarrow> real) \<Rightarrow> GenState \<Rightarrow> GenState" where
  "genCoalLayer tr g rnd st =
     fold (\<lambda>gX. fold (genCoalCell tr rnd gX) [horizonLineGU + 1 ..< horizonLineGU + 21])
          [0 ..< widthGU g] st"

definition generate ::
    "Terrain \<Rightarrow> Grid \<Rightarrow> (real \<Rightarrow> nat \<Rightarrow> real) \<Rightarrow> real option \<Rightarrow> real \<Rightarrow> Game
     \<Rightarrow> Error + Game" where
  \<comment> \<open>\<open>prng\<close> is \<open>seedrandom\<close>, \<open>now\<close> is \<open>Date.now()\<close>; an exception of the surface
      loop leaves \<open>generate\<close> before the dirt and coal loops\<close>
  "generate tr g prng seedArg now s =
     (let sd = js_or seedArg now
      in case genSurface tr g (fg_tiles s) of
           Inl e \<Rightarrow> Inl e
         | Inr fg1 \<Rightarrow>
             (let fg2 = genDirt tr g fg1;
                  st = genCoalLayer tr g (prng sd) (fg2, 0)
              in Inr (s\<lparr>seed := sd, fg_tiles := fst st\<rparr>)))"

section \<open>Sessions\<close>

definition newGame :: "Grid \<Rightarrow> real \<Rightarrow> Stored option \<Rightarrow> Game" where
  \<comment> \<open>the constructors of Player and BuildingHandler; the capacity of the hold
      (PlayerHold.js is missing) and the content of the save slot are parameters\<close>
  "newGame g capacity store =
     resetPos g
       \<lparr>player_x = 0, player_y = 0, speed = defaultSpeed, speedMultiplier = 1,
        tickEnabled = True, canMove = True, moving = False, wasMoving = False,
        isStopping = False, targetPos = (0, 0),
        tile = getTilePositionFromPixelPosition g 0 0, minetile = None,
        money = 300, chargeReq = 20, charge = 0, maxFuel = 10, tank = 0,
        fuel = 10 * (0 / 2 + 1), fuelDebounce = False, facingDirection = RIGHT,
        hold_mapTiles = [], hold_capacity = capacity, fg_tiles = Map.empty, seed = 0,
        currentUI = None, waypoints = [], overlay = None, events = [], messages = [],
        timers = [], localStorage = store\<rparr>"

definition startGame ::
    "Terrain \<Rightarrow> Grid \<Rightarrow> (real \<Rightarrow> nat \<Rightarrow> real) \<Rightarrow> real \<Rightarrow> real \<Rightarrow> Stored option
     \<Rightarrow> Error + Game" where
  \<comment> \<open>\<open>DisplayHandler.init\<close>: the map is generated, then the player is created; when
      \<open>generate\<close> throws there is no session\<close>
  "startGame tr g prng now capacity store =
     generate tr g prng None now (newGame g capacity store)"

datatype Action =
  Tick "string list" real
  | Timer
  | ClickItem nat "string option"
  | ClickClose
  | AutoLoad

definition step :: "Grid \<Rightarrow> Action \<Rightarrow> Game \<Rightarrow> Game" where
  \<comment> \<open>what can happen to a running session: a frame, a timer running out, a click on
      an entry or on the close button of the open overlay, the loading of the save slot\<close>
  "step g a s =
     (case a of
        Tick pressedKeys delta \<Rightarrow> tick g pressedKeys delta s
      | Timer \<Rightarrow> fireTimer g s
      | ClickItem i answer \<Rightarrow>
          (case overlay s of
             None \<Rightarrow> s
           | Some ui \<Rightarrow> if i < length (ui_items ui) then handlePurchase (ui_items ui ! i) answer s
                        else s)
      | ClickClose \<Rightarrow> (case overlay s of None \<Rightarrow> s | Some ui \<Rightarrow> closeUI s)
      | AutoLoad \<Rightarrow>
          (case loadGame s of None \<Rightarrow> s | Some saveData \<Rightarrow> snd (applySaveData g saveData s)))"

definition run :: "Grid \<Rightarrow> Action list \<Rightarrow> Game \<Rightarrow> Game" where
  "run g acts s = foldl (\<lambda>s' a. step g a s') s acts"

inductive reachable :: "Terrain \<Rightarrow> Grid \<Rightarrow> Game \<Rightarrow> bool" for tr :: Terrain and g :: Grid where
  start: "startGame tr g prng now capacity store = Inr s \<Longrightarrow> reachable tr g s"
| next_step: "reachable tr g s \<Longrightarrow> reachable tr g (step g a s)"

section \<open>Conditions on ticks, runs and invariants\<close>

definition movingTick :: "Grid \<Rightarrow> string list \<Rightarrow> Game \<Rightarrow> bool" where
  \<comment> \<open>the tick runs the body of \<open>if (this.moving)\<close>: ticks are enabled, there is fuel
      left, and the player is moving once the keys have been polled\<close>
  "movingTick g pressedKeys s \<longleftrightarrow>
     tickEnabled s \<and> 0 < fuel s \<and> moving (pollInput g pressedKeys s)"

definition arrivalTick :: "Grid \<Rightarrow> string list \<Rightarrow> real \<Rightarrow> Game \<Rightarrow> bool" where
  \<comment> \<open>the tick runs the body of the movement-completion check\<close>
  "arrivalTick g pressedKeys delta s \<longleftrightarrow>
     movingTick g pressedKeys s \<and>
     movementComplete (performMovement delta (drainFuel g delta (pollInput g pressedKeys s)))"

definition arrivalCell :: "Grid \<Rightarrow> string list \<Rightarrow> Game \<Rightarrow> Tile" where
  \<comment> \<open>the cell of the target the player is heading for in this tick\<close>
  "arrivalCell g pressedKeys s =
     getTilePositionFromPixelPosition g (fst (targetPos (pollInput g pressedKeys s)))
       (snd (targetPos (pollInput g pressedKeys s)))"

definition belowBand :: "Grid \<Rightarrow> Game \<Rightarrow> bool" where
  "belowBand g s \<longleftrightarrow> player_y s > horizonLine g - tileSize g + 5"

definition frames :: "(string list \<times> real) list \<Rightarrow> Action list" where
  \<comment> \<open>a sequence of ticks, each with its pressed keys and its elapsed time\<close>
  "frames fs = map (\<lambda>(pressedKeys, delta). Tick pressedKeys delta) fs"

definition chargeInv :: "Game \<Rightarrow> bool" where
  "chargeInv s \<longleftrightarrow> tickEnabled s \<and> 0 \<le> charge s \<and> charge s \<le> chargeReq s + 1"

definition recoveryInv :: "Game \<Rightarrow> bool" where
  \<comment> \<open>the debounce flag and the pending timer of the recovery sequence go together\<close>
  "recoveryInv s \<longleftrightarrow>
     (if fuelDebounce s
      then \<not> canMove s \<and> \<not> moving s
           \<and> (timers s = [FadeOutDone] \<or> timers s = [DramaticDelay] \<or> timers s = [FadeInDone])
      else timers s = [])"

definition uiLocked :: "Game \<Rightarrow> bool" where
  \<comment> \<open>the UI-open flag says ``fuel'' and there is no overlay to close\<close>
  "uiLocked s \<longleftrightarrow> currentUI s = Some ''fuel'' \<and> overlay s = None"

definition coalDraw :: "(nat \<Rightarrow> real) \<Rightarrow> nat \<Rightarrow> bool" where
  \<comment> \<open>the test of \<open>shouldGenType\<close> on the \<open>k\<close>-th draw\<close>
  "coalDraw rnd k \<longleftrightarrow> rnd k * 100 \<le> 75 / 10"

definition cellDraw :: "nat \<Rightarrow> nat \<Rightarrow> nat" where
  \<comment> \<open>the coal loops run column by column over 20 rows: the number of the draw taken
      for the cell \<open>(gX, gY)\<close>\<close>
  "cellDraw gX gY = gX * 20 + (gY - (horizonLineGU + 1))"

definition surfaceClass :: "nat \<Rightarrow> TileClass" where
  \<comment> \<open>the class placed on the surface row in column \<open>i\<close>, where one is placed\<close>
  "surfaceClass i = (case find (\<lambda>b. snd b = i) surfaceBuildings of
                       Some building \<Rightarrow> (case fst building of Class c \<Rightarrow> c | EmptyObject \<Rightarrow> Grass)
                     | None \<Rightarrow> Grass)"

section \<open>Example states and runs\<close>

definition exampleTerrain :: Terrain where
  "exampleTerrain =
     \<lparr>grassProps = \<lparr>name = ''Grass'', color = ''#90EE90'', ptype = GRASS, thickness = 265 / 10,
         tile_value = 0, interactable = False\<rparr>,
      dirtProps = \<lparr>name = ''Dirt'', color = ''#8B4513'', ptype = DIRT, thickness = 265 / 10,
         tile_value = 1, interactable = False\<rparr>,
      coalProps = \<lparr>name = ''Coal'', color = ''#000000'', ptype = COAL, thickness = 265 / 10,
         tile_value = 30, interactable = False\<rparr>\<rparr>"

definition narrowGrid :: Grid where
  \<comment> \<open>a world of 24 columns and 40 rows of 50-pixel tiles: the surface loop ends before
      column 25, so map generation completes\<close>
  "narrowGrid = \<lparr>tileSize = 50, widthGU = 24, heightGU = 40,
     borders_left = 0, borders_right = 1200, borders_bottom = 2000\<rparr>"

definition narrowStart :: "(real \<Rightarrow> nat \<Rightarrow> real) \<Rightarrow> Game" where
  \<comment> \<open>the session that \<open>startGame\<close> returns on the narrow grid, at time 1\<close>
  "narrowStart prng =
     (case startGame exampleTerrain narrowGrid prng 1 10 None of
        Inr s \<Rightarrow> s
      | Inl e \<Rightarrow> newGame narrowGrid 10 None)"

definition exampleStart :: Game where
  \<comment> \<open>a fresh session on the narrow grid; every draw of the generator is 1/2, so the
      map has no coal\<close>
  "exampleStart = narrowStart (\<lambda>sd k. 1 / 2)"

definition exampleMap :: "Tile \<rightharpoonup> MapTile" where
  "exampleMap = fg_tiles exampleStart"

definition surfaceRun :: "Action list" where
  \<comment> \<open>DOWN held at the start position: 21 frames of charging, then a long frame that
      commits the move and arrives in the grass cell (12, 8)\<close>
  "surfaceRun = map (Tick [''ArrowDown'']) (replicate 21 16) @ [Tick [''ArrowDown''] 1000]"

definition shaftRun :: "Action list" where
  \<comment> \<open>one more long frame with DOWN held: into the dirt cell (12, 9)\<close>
  "shaftRun = surfaceRun @ [Tick [''ArrowDown''] 1000]"

definition drainRun :: "Action list" where
  \<comment> \<open>from the grass cell a very long frame into the dirt cell (12, 9), then a frame
      that commits the move into (12, 10) and uses up the fuel on the way\<close>
  "drainRun = surfaceRun @ [Tick [''ArrowDown''] 50500, Tick [''ArrowDown''] 600]"

definition digRun :: "Action list" where
  \<comment> \<open>dig down from the start position through the grass and the dirt below it, with
      two long frames, until the fuel is used up\<close>
  "digRun =
     map (Tick [''ArrowDown'']) (replicate 21 16)
     @ [Tick [''ArrowDown''] 16, Tick [] 60000, Tick [''ArrowDown''] 16, Tick [] 60000]"

definition outOfFuelRun :: "Action list" where
  \<comment> \<open>the next frame finds the tank empty\<close>
  "outOfFuelRun = digRun @ [Tick [] 16]"

definition toShopRun :: "Action list" where
  \<comment> \<open>from the start position seven cells to the left along the surface, one cell per
      250 ms frame, then DOWN held for 15 frames over the Shop at (5, 8)\<close>
  "toShopRun =
     [Tick [''ArrowLeft''] 250, Tick [''ArrowLeft''] 250, Tick [''ArrowLeft''] 250,
      Tick [''ArrowLeft''] 250, Tick [''ArrowLeft''] 250, Tick [''ArrowLeft''] 250,
      Tick [''ArrowLeft''] 250]
     @ map (Tick [''ArrowDown'']) (replicate 14 16)
     @ [Tick [''ArrowDown''] 16]"

definition coalAt :: "Tile \<Rightarrow> MapTile" where
  "coalAt t = \<lparr>cls = Coal, mt_tile = t,
     properties = \<lparr>name = ''Coal'', color = ''#000000'', ptype = COAL, thickness = 50,
       tile_value = 30, interactable = False\<rparr>\<rparr>"

definition shopAt :: "Tile \<Rightarrow> MapTile" where
  "shopAt t = \<lparr>cls = Shop, mt_tile = t, properties = shopProps\<rparr>"

definition scenarioC4 :: Game where
  "scenarioC4 =
     \<lparr>player_x = 500, player_y = 400, speed = defaultSpeed, speedMultiplier = 1,
      tickEnabled = True, canMove = True, moving = False, wasMoving = False,
      isStopping = False, targetPos = (500, 400), tile = (10, 8), minetile = None,
      money = 300, chargeReq = 20, charge = 0, maxFuel = 10, tank = 0, fuel = 10,
      fuelDebounce = False, facingDirection = RIGHT, hold_mapTiles = [], hold_capacity = 10,
      fg_tiles = [(11, 8) \<mapsto> \<lparr>cls = Coal, mt_tile = (11, 8),
         properties = \<lparr>name = ''Coal'', color = ''#000000'', ptype = COAL, thickness = 50,
           tile_value = 30, interactable = False\<rparr>\<rparr>],
      seed = 1, currentUI = None, waypoints = [], overlay = None, events = [], messages = [],
      timers = [], localStorage = None\<rparr>"

definition arrivingPlayer :: "(Tile \<rightharpoonup> MapTile) \<Rightarrow> Game" where
  \<comment> \<open>one pixel short of the target (550, 400), moving right at the default speed\<close>
  "arrivingPlayer fg =
     \<lparr>player_x = 549, player_y = 400, speed = defaultSpeed, speedMultiplier = 1,
      tickEnabled = True, canMove = True, moving = True, wasMoving = True,
      isStopping = False, targetPos = (550, 400), tile = (10, 8), minetile = fg (11, 8),
      money = 300, chargeReq = 20, charge = 21, maxFuel = 10, tank = 0, fuel = 8,
      fuelDebounce = False, facingDirection = RIGHT, hold_mapTiles = [], hold_capacity = 10,
      fg_tiles = fg,
      seed = 1, currentUI = None, waypoints = [], overlay = None, events = [], messages = [],
      timers = [], localStorage = None\<rparr>"

definition poorSeller :: Game where
  \<comment> \<open>at the surface with two pieces of coal in the hold and 10 in the purse\<close>
  "poorSeller =
     \<lparr>player_x = 750, player_y = 350, speed = defaultSpeed, speedMultiplier = 1,
      tickEnabled = True, canMove = True, moving = False, wasMoving = False,
      isStopping = False, targetPos = (750, 350), tile = (15, 7), minetile = None,
      money = 10, chargeReq = 20, charge = 0, maxFuel = 10, tank = 0, fuel = 6,
      fuelDebounce = False, facingDirection = RIGHT,
      hold_mapTiles = [\<lparr>item_name = ''Coal'', item_value = 30\<rparr>,
                       \<lparr>item_name = ''Coal'', item_value = 30\<rparr>],
      hold_capacity = 10, fg_tiles = Map.empty,
      seed = 1, currentUI = None, waypoints = [], overlay = None, events = [], messages = [],
      timers = [], localStorage = None\<rparr>"

definition brokePlayer :: Game where
  \<comment> \<open>a player whose money is exactly 0\<close>
  "brokePlayer =
     \<lparr>player_x = 1000, player_y = 450, speed = defaultSpeed, speedMultiplier = 1,
      tickEnabled = True, canMove = True, moving = False, wasMoving = False,
      isStopping = False, targetPos = (1000, 450), tile = (20, 9), minetile = None,
      money = 0, chargeReq = 20, charge = 0, maxFuel = 10, tank = 0, fuel = 4,
      fuelDebounce = False, facingDirection = DOWN,
      hold_mapTiles = [\<lparr>item_name = ''Dirt'', item_value = 1\<rparr>],
      hold_capacity = 10, fg_tiles = Map.empty,
      seed = 1, currentUI = None, waypoints = [], overlay = None, events = [], messages = [],
      timers = [], localStorage = None\<rparr>"

definition fullTank :: Game where
  \<comment> \<open>a fresh player at the surface: the tank is full and no overlay is open\<close>
  "fullTank = newGame displayGrid 10 None"

section \<open>Frame lemmas\<close>

lemmas building_defs = openShop_def buildingSaveGame_def openSellingPost_def openFuelStation_def
  openTeleporter_def createUI_def showMessage_def

lemma handleBuildingInteraction_player [simp]:
  "player_x (handleBuildingInteraction b s) = player_x s"
  "player_y (handleBuildingInteraction b s) = player_y s"
  "speed (handleBuildingInteraction b s) = speed s"
  "speedMultiplier (handleBuildingInteraction b s) = speedMultiplier s"
  "tickEnabled (handleBuildingInteraction b s) = tickEnabled s"
  "canMove (handleBuildingInteraction b s) = canMove s"
  "moving (handleBuildingInteraction b s) = moving s"
  "wasMoving (handleBuildingInteraction b s) = wasMoving s"
  "isStopping (handleBuildingInteraction b s) = isStopping s"
  "targetPos (handleBuildingInteraction b s) = targetPos s"
  "tile (handleBuildingInteraction b s) = tile s"
  "minetile (handleBuildingInteraction b s) = minetile s"
  "money (handleBuildingInteraction b s) = money s"
  "chargeReq (handleBuildingInteraction b s) = chargeReq s"
  "charge (handleBuildingInteraction b s) = charge s"
  "maxFuel (handleBuildingInteraction b s) = maxFuel s"
  "tank (handleBuildingInteraction b s) = tank s"
  "fuel (handleBuildingInteraction b s) = fuel s"
  "fuelDebounce (handleBuildingInteraction b s) = fuelDebounce s"
  "facingDirection (handleBuildingInteraction b s) = facingDirection s"
  by (cases b; simp add: building_defs Let_def)+

lemma handleBuildingInteraction_world [simp]:
  "hold_mapTiles (handleBuildingInteraction b s) = hold_mapTiles s"
  "hold_capacity (handleBuildingInteraction b s) = hold_capacity s"
  "fg_tiles (handleBuildingInteraction b s) = fg_tiles s"
  "seed (handleBuildingInteraction b s) = seed s"
  "waypoints (handleBuildingInteraction b s) = waypoints s"
  "events (handleBuildingInteraction b s) = events s"
  "timers (handleBuildingInteraction b s) = timers s"
  by (cases b; simp add: building_defs Let_def)+

lemma onPlayerMove_player [simp]:
  "player_x (onPlayerMove t s) = player_x s"
  "player_y (onPlayerMove t s) = player_y s"
  "speed (onPlayerMove t s) = speed s"
  "speedMultiplier (onPlayerMove t s) = speedMultiplier s"
  "tickEnabled (onPlayerMove t s) = tickEnabled s"
  "canMove (onPlayerMove t s) = canMove s"
  "moving (onPlayerMove t s) = moving s"
  "wasMoving (onPlayerMove t s) = wasMoving s"
  "isStopping (onPlayerMove t s) = isStopping s"
  "targetPos (onPlayerMove t s) = targetPos s"
  "tile (onPlayerMove t s) = tile s"
  "minetile (onPlayerMove t s) = minetile s"
  "money (onPlayerMove t s) = money s"
  "chargeReq (onPlayerMove t s) = chargeReq s"
  "charge (onPlayerMove t s) = charge s"
  "maxFuel (onPlayerMove t s) = maxFuel s"
  "tank (onPlayerMove t s) = tank s"
  "fuel (onPlayerMove t s) = fuel s"
  "fuelDebounce (onPlayerMove t s) = fuelDebounce s"
  "facingDirection (onPlayerMove t s) = facingDirection s"
  by (simp_all add: onPlayerMove_def split: option.split)

lemma onPlayerMove_world [simp]:
  "hold_mapTiles (onPlayerMove t s) = hold_mapTiles s"
  "hold_capacity (onPlayerMove t s) = hold_capacity s"
  "fg_tiles (onPlayerMove t s) = fg_tiles s"
  "seed (onPlayerMove t s) = seed s"
  "waypoints (onPlayerMove t s) = waypoints s"
  "events (onPlayerMove t s) = events s"
  "timers (onPlayerMove t s) = timers s"
  by (simp_all add: onPlayerMove_def split: option.split)

lemma dispatchEvent_player [simp]:
  "player_x (dispatchEvent e s) = player_x s"
  "player_y (dispatchEvent e s) = player_y s"
  "speed (dispatchEvent e s) = speed s"
  "speedMultiplier (dispatchEvent e s) = speedMultiplier s"
  "tickEnabled (dispatchEvent e s) = tickEnabled s"
  "canMove (dispatchEvent e s) = canMove s"
  "moving (dispatchEvent e s) = moving s"
  "wasMoving (dispatchEvent e s) = wasMoving s"
  "isStopping (dispatchEvent e s) = isStopping s"
  "targetPos (dispatchEvent e s) = targetPos s"
  "tile (dispatchEvent e s) = tile s"
  "minetile (dispatchEvent e s) = minetile s"
  "money (dispatchEvent e s) = money s"
  "chargeReq (dispatchEvent e s) = chargeReq s"
  "charge (dispatchEvent e s) = charge s"
  "maxFuel (dispatchEvent e s) = maxFuel s"
  "tank (dispatchEvent e s) = tank s"
  "fuel (dispatchEvent e s) = fuel s"
  "fuelDebounce (dispatchEvent e s) = fuelDebounce s"
  "facingDirection (dispatchEvent e s) = facingDirection s"
  by (cases e; simp add: dispatchEvent_def Let_def)+

lemma dispatchEvent_world [simp]:
  "hold_mapTiles (dispatchEvent e s) = hold_mapTiles s"
  "hold_capacity (dispatchEvent e s) = hold_capacity s"
  "fg_tiles (dispatchEvent e s) = fg_tiles s"
  "seed (dispatchEvent e s) = seed s"
  "waypoints (dispatchEvent e s) = waypoints s"
  "events (dispatchEvent e s) = events s @ [e]"
  "timers (dispatchEvent e s) = timers s"
  by (cases e; simp add: dispatchEvent_def Let_def)+

lemma arrive_player [simp]:
  "player_x (arrive g s) = fst (targetPos s)"
  "player_y (arrive g s) = snd (targetPos s)"
  "speed (arrive g s) = speed s"
  "speedMultiplier (arrive g s) = speedMultiplier s"
  "tickEnabled (arrive g s) = tickEnabled s"
  "canMove (arrive g s) = canMove s"
  "moving (arrive g s) = False"
  "wasMoving (arrive g s) = wasMoving s"
  "isStopping (arrive g s) = True"
  "targetPos (arrive g s) = targetPos s"
  "tile (arrive g s) = getTilePositionFromPixelPosition g (fst (targetPos s)) (snd (targetPos s))"
  "money (arrive g s) = money s"
  "chargeReq (arrive g s) = chargeReq s"
  "charge (arrive g s) = charge s"
  "maxFuel (arrive g s) = maxFuel s"
  "tank (arrive g s) = tank s"
  "fuel (arrive g s) = fuel s"
  "fuelDebounce (arrive g s) = fuelDebounce s"
  "facingDirection (arrive g s) = facingDirection s"
  "timers (arrive g s) = timers s"
  "waypoints (arrive g s) = waypoints s"
  by (simp_all add: arrive_def Let_def split: option.split)

lemma updateWasMoving_fields [simp]:
  "player_x (updateWasMoving s) = player_x s"
  "player_y (updateWasMoving s) = player_y s"
  "speed (updateWasMoving s) = speed s"
  "speedMultiplier (updateWasMoving s) = speedMultiplier s"
  "tickEnabled (updateWasMoving s) = tickEnabled s"
  "canMove (updateWasMoving s) = canMove s"
  "moving (updateWasMoving s) = moving s"
  "wasMoving (updateWasMoving s) = moving s"
  "isStopping (updateWasMoving s) = isStopping s"
  "targetPos (updateWasMoving s) = targetPos s"
  "tile (updateWasMoving s) = tile s"
  "minetile (updateWasMoving s) = minetile s"
  "money (updateWasMoving s) = money s"
  "chargeReq (updateWasMoving s) = chargeReq s"
  "charge (updateWasMoving s) = charge s"
  "maxFuel (updateWasMoving s) = maxFuel s"
  "tank (updateWasMoving s) = tank s"
  "fuel (updateWasMoving s) = fuel s"
  "fuelDebounce (updateWasMoving s) = fuelDebounce s"
  "facingDirection (updateWasMoving s) = facingDirection s"
  "hold_mapTiles (updateWasMoving s) = hold_mapTiles s"
  "hold_capacity (updateWasMoving s) = hold_capacity s"
  "fg_tiles (updateWasMoving s) = fg_tiles s"
  "seed (updateWasMoving s) = seed s"
  "currentUI (updateWasMoving s) = currentUI s"
  "waypoints (updateWasMoving s) = waypoints s"
  "overlay (updateWasMoving s) = overlay s"
  "events (updateWasMoving s) = events s"
  "messages (updateWasMoving s) = messages s"
  "timers (updateWasMoving s) = timers s"
  "localStorage (updateWasMoving s) = localStorage s"
  by (simp_all add: updateWasMoving_def)

lemma drainFuel_fields [simp]:
  "player_x (drainFuel g delta s) = player_x s"
  "player_y (drainFuel g delta s) = player_y s"
  "speed (drainFuel g delta s) = speed s"
  "speedMultiplier (drainFuel g delta s) = speedMultiplier s"
  "tickEnabled (drainFuel g delta s) = tickEnabled s"
  "canMove (drainFuel g delta s) = canMove s"
  "moving (drainFuel g delta s) = moving s"
  "wasMoving (drainFuel g delta s) = wasMoving s"
  "isStopping (drainFuel g delta s) = isStopping s"
  "targetPos (drainFuel g delta s) = targetPos s"
  "tile (drainFuel g delta s) = tile s"
  "minetile (drainFuel g delta s) = minetile s"
  "money (drainFuel g delta s) = money s"
  "chargeReq (drainFuel g delta s) = chargeReq s"
  "charge (drainFuel g delta s) = charge s"
  "maxFuel (drainFuel g delta s) = maxFuel s"
  "tank (drainFuel g delta s) = tank s"
  "fuelDebounce (drainFuel g delta s) = fuelDebounce s"
  "facingDirection (drainFuel g delta s) = facingDirection s"
  "hold_mapTiles (drainFuel g delta s) = hold_mapTiles s"
  "hold_capacity (drainFuel g delta s) = hold_capacity s"
  "fg_tiles (drainFuel g delta s) = fg_tiles s"
  "seed (drainFuel g delta s) = seed s"
  "currentUI (drainFuel g delta s) = currentUI s"
  "waypoints (drainFuel g delta s) = waypoints s"
  "overlay (drainFuel g delta s) = overlay s"
  "events (drainFuel g delta s) = events s"
  "messages (drainFuel g delta s) = messages s"
  "timers (drainFuel g delta s) = timers s"
  "localStorage (drainFuel g delta s) = localStorage s"
  by (simp_all add: drainFuel_def updateFuel_def)

lemma performMovement_fields [simp]:
  "speed (performMovement delta s) = speed s"
  "speedMultiplier (performMovement delta s) = speedMultiplier s"
  "tickEnabled (performMovement delta s) = tickEnabled s"
  "canMove (performMovement delta s) = canMove s"
  "moving (performMovement delta s) = moving s"
  "wasMoving (performMovement delta s) = wasMoving s"
  "isStopping (performMovement delta s) = isStopping s"
  "targetPos (performMovement delta s) = targetPos s"
  "tile (performMovement delta s) = tile s"
  "minetile (performMovement delta s) = minetile s"
  "money (performMovement delta s) = money s"
  "chargeReq (performMovement delta s) = chargeReq s"
  "charge (performMovement delta s) = charge s"
  "maxFuel (performMovement delta s) = maxFuel s"
  "tank (performMovement delta s) = tank s"
  "fuel (performMovement delta s) = fuel s"
  "fuelDebounce (performMovement delta s) = fuelDebounce s"
  "facingDirection (performMovement delta s) = facingDirection s"
  "hold_mapTiles (performMovement delta s) = hold_mapTiles s"
  "hold_capacity (performMovement delta s) = hold_capacity s"
  "fg_tiles (performMovement delta s) = fg_tiles s"
  "seed (performMovement delta s) = seed s"
  "currentUI (performMovement delta s) = currentUI s"
  "waypoints (performMovement delta s) = waypoints s"
  "overlay (performMovement delta s) = overlay s"
  "events (performMovement delta s) = events s"
  "messages (performMovement delta s) = messages s"
  "timers (performMovement delta s) = timers s"
  "localStorage (performMovement delta s) = localStorage s"
  by (simp_all add: performMovement_def Let_def split: Direction.split)

lemma moveStep_fields [simp]:
  "speed (moveStep g delta s) = speed s"
  "speedMultiplier (moveStep g delta s) = speedMultiplier s"
  "tickEnabled (moveStep g delta s) = tickEnabled s"
  "canMove (moveStep g delta s) = canMove s"
  "targetPos (moveStep g delta s) = targetPos s"
  "money (moveStep g delta s) = money s"
  "chargeReq (moveStep g delta s) = chargeReq s"
  "charge (moveStep g delta s) = charge s"
  "maxFuel (moveStep g delta s) = maxFuel s"
  "tank (moveStep g delta s) = tank s"
  "fuel (moveStep g delta s) = fuel (drainFuel g delta s)"
  "fuelDebounce (moveStep g delta s) = fuelDebounce s"
  "facingDirection (moveStep g delta s) = facingDirection s"
  "timers (moveStep g delta s) = timers s"
  "waypoints (moveStep g delta s) = waypoints s"
  by (simp_all add: moveStep_def Let_def)

lemma commit_tick:
  assumes "tickEnabled s" "0 < fuel s" "\<not> moving s" "canMove s"
    and "checkDirection pressedKeys = Some d"
    and "fg_tiles s (neighbour d (tile s)) = Some mt"
    and "charge s > chargeReq s"
    and "nextTarget g d (targetPos s) \<noteq> (player_x s, player_y s)"
  shows "targetPos (tick g pressedKeys delta s) = nextTarget g d (targetPos s)"
    and "speed (tick g pressedKeys delta s)
         = thickness (properties mt) / 100 * (defaultSpeed * speedMultiplier s)"
proof -
  obtain tx ty where nt: "nextTarget g d (targetPos s) = (tx, ty)"
    by (cases "nextTarget g d (targetPos s)")
  with assms(8) have ne: "tx = player_x s \<longrightarrow> ty \<noteq> player_y s" by auto
  show "targetPos (tick g pressedKeys delta s) = nextTarget g d (targetPos s)"
    using assms(1-7) nt ne
    by (simp add: tick_def pollInput_def handleInput_def kpCharge_def commitMove_def Let_def)
  show "speed (tick g pressedKeys delta s)
         = thickness (properties mt) / 100 * (defaultSpeed * speedMultiplier s)"
    using assms(1-7) nt ne
    by (auto simp add: tick_def pollInput_def handleInput_def kpCharge_def commitMove_def Let_def)
qed

section \<open>Charging\<close>

lemma charging_tick:
  assumes "tickEnabled s" "0 < fuel s" "\<not> moving s" "canMove s"
    and "checkDirection pressedKeys = Some d"
    and "fg_tiles s (neighbour d (tile s)) = Some mt"
    and "charge s \<le> chargeReq s"
  shows "tick g pressedKeys delta s = s\<lparr>facingDirection := d, charge := charge s + 1, wasMoving := False\<rparr>"
  using assms
  by (cases s) (simp add: tick_def pollInput_def handleInput_def kpCharge_def updateWasMoving_def Let_def)

lemma run_snoc: "run g (acts @ [a]) s = step g a (run g acts s)"
  by (simp add: run_def)

lemma charging_run:
  assumes "tickEnabled s" "0 < fuel s" "\<not> moving s" "canMove s"
    and "checkDirection pressedKeys = Some d"
    and "fg_tiles s (neighbour d (tile s)) = Some mt"
    and "charge s + real (length deltas) \<le> chargeReq s + 1"
    and "deltas \<noteq> []"
  shows "run g (map (Tick pressedKeys) deltas) s
         = s\<lparr>facingDirection := d, charge := charge s + real (length deltas), wasMoving := False\<rparr>"
  using assms(7,8)
proof (induction deltas rule: rev_induct)
  case Nil
  then show ?case by simp
next
  case (snoc delta deltas)
  show ?case
  proof (cases "deltas = []")
    case True
    then show ?thesis using assms(1-6) snoc.prems
      by (simp add: run_def step_def charging_tick)
  next
    case False
    let ?s = "s\<lparr>facingDirection := d, charge := charge s + real (length deltas), wasMoving := False\<rparr>"
    have ih: "run g (map (Tick pressedKeys) deltas) s = ?s"
      using snoc False by simp
    have "tick g pressedKeys delta ?s = ?s\<lparr>facingDirection := d, charge := charge ?s + 1, wasMoving := False\<rparr>"
      using assms(1-6) snoc.prems by (intro charging_tick[where mt=mt]) simp_all
    then show ?thesis
      by (simp add: run_snoc ih step_def add.assoc)
  qed
qed

section \<open>Claim C4: the charged move\<close>

text \<open>
  C4 (as amended). With \<open>chargeReq = 20\<close>, a player idle at grid (10, 8) with charge 0
  holds RIGHT over a destination tile of thickness 50. After 21 ticks of held input
  the move is not yet committed: the player is not moving, the target is still the
  pixel position (500, 400) of grid (10, 8) and the charge stands at 21. The 22nd
  tick commits: the target becomes pixel (550, 400), which is grid (11, 8), and the
  speed becomes \<open>0.5 * defaultSpeed * speedMultiplier\<close>.
\<close>

theorem C4_commit_on_tick_22:
  assumes "tileSize g = 50" and "600 \<le> borders_right g"
    and "tickEnabled s" and "0 < fuel s" and "\<not> moving s" and "canMove s"
    and "chargeReq s = 20" and "charge s = 0"
    and "tile s = (10, 8)" and "player_x s = 500" and "player_y s = 400"
    and "targetPos s = (500, 400)"
    and "fg_tiles s (11, 8) = Some mt" and "thickness (properties mt) = 50"
    and "checkDirection pressedKeys = Some RIGHT"
    and "length deltas = 21"
    and "s21 = run g (map (Tick pressedKeys) deltas) s"
    and "s22 = tick g pressedKeys delta s21"
  shows "\<not> moving s21 \<and> targetPos s21 = (500, 400) \<and> charge s21 = 21
         \<and> targetPos s22 = (550, 400)
         \<and> getTilePositionFromPixelPosition g (fst (targetPos s22)) (snd (targetPos s22)) = (11, 8)
         \<and> speed s22 = 0.5 * defaultSpeed * speedMultiplier s"
proof -
  have nb: "fg_tiles s (neighbour RIGHT (tile s)) = Some mt"
    using assms(9,13) by (simp add: neighbour_def)
  have s21: "s21 = s\<lparr>facingDirection := RIGHT, charge := charge s + real (length deltas),
                     wasMoving := False\<rparr>"
    unfolding assms(17) using assms(3-8,15,16) nb
    by (intro charging_run[where mt=mt]) auto
  have a: "\<not> moving s21" "targetPos s21 = (500, 400)" "charge s21 = 21"
    using assms(5,8,12,16) by (simp_all add: s21)
  have nt: "nextTarget g RIGHT (targetPos s21) = (550, 400)"
    using assms(1,2) a(2) by (simp add: nextTarget_def Let_def)
  have pre: "tickEnabled s21" "0 < fuel s21" "canMove s21" "charge s21 > chargeReq s21"
    "fg_tiles s21 (neighbour RIGHT (tile s21)) = Some mt"
    "nextTarget g RIGHT (targetPos s21) \<noteq> (player_x s21, player_y s21)"
    using assms(3-8,10,11,16) nb nt by (simp_all add: s21)
  have t: "targetPos s22 = (550, 400)"
    unfolding assms(18) using commit_tick(1)[OF pre(1,2) a(1) pre(3) assms(15) pre(5,4,6)] nt
    by simp
  have sp: "speed s22 = 0.5 * defaultSpeed * speedMultiplier s"
    unfolding assms(18) using commit_tick(2)[OF pre(1,2) a(1) pre(3) assms(15) pre(5,4,6)] assms(14)
    by (simp add: s21)
  have "getTilePositionFromPixelPosition g 550 400 = (11, 8)"
    using assms(1) by (simp add: getTilePositionFromPixelPosition_def)
  with a t sp show ?thesis by simp
qed

text \<open>The scenario on the grid of the display handler, with 16 ms frames.\<close>

theorem C4_commit_on_tick_22_witness:
  "tileSize displayGrid = 50 \<and> chargeReq scenarioC4 = 20 \<and> charge scenarioC4 = 0
   \<and> tile scenarioC4 = (10, 8) \<and> \<not> moving scenarioC4
   \<and> map_option (\<lambda>mt. thickness (properties mt)) (fg_tiles scenarioC4 (11, 8)) = Some 50
   \<and> checkDirection [''ArrowRight''] = Some RIGHT
   \<and> targetPos (tick displayGrid [''ArrowRight''] 16
       (run displayGrid (map (Tick [''ArrowRight'']) (replicate 21 16)) scenarioC4)) = (550, 400)
   \<and> speed (tick displayGrid [''ArrowRight''] 16
       (run displayGrid (map (Tick [''ArrowRight'']) (replicate 21 16)) scenarioC4)) = 111 / 1000
   \<and> \<not> moving (run displayGrid (map (Tick [''ArrowRight'']) (replicate 21 16)) scenarioC4)"
  using C4_commit_on_tick_22[of displayGrid scenarioC4 _ "[''ArrowRight'']" "replicate 21 16"
      "run displayGrid (map (Tick [''ArrowRight'']) (replicate 21 16)) scenarioC4"
      "tick displayGrid [''ArrowRight''] 16
         (run displayGrid (map (Tick [''ArrowRight'']) (replicate 21 16)) scenarioC4)" 16]
  by (simp add: displayGrid_def scenarioC4_def checkDirection_def defaultSpeed_def)

text \<open>
  C4 as stated fails: after the 21st tick of held input the move has not been
  committed, the target is still grid (10, 8) and the speed is still the default.
\<close>

theorem C4_no_commit_on_tick_21:
  "\<not> moving (run displayGrid (map (Tick [''ArrowRight'']) (replicate 21 16)) scenarioC4)
   \<and> targetPos (run displayGrid (map (Tick [''ArrowRight'']) (replicate 21 16)) scenarioC4) = (500, 400)
   \<and> speed (run displayGrid (map (Tick [''ArrowRight'']) (replicate 21 16)) scenarioC4) = defaultSpeed"
proof -
  have "run displayGrid (map (Tick [''ArrowRight'']) (replicate 21 16)) scenarioC4
        = scenarioC4\<lparr>facingDirection := RIGHT,
            charge := charge scenarioC4 + real (length (replicate 21 (16::real))), wasMoving := False\<rparr>"
    by (rule charging_run[where mt="\<lparr>cls = Coal, mt_tile = (11, 8),
         properties = \<lparr>name = ''Coal'', color = ''#000000'', ptype = COAL, thickness = 50,
           tile_value = 30, interactable = False\<rparr>\<rparr>"])
       (simp_all add: scenarioC4_def checkDirection_def neighbour_def)
  then show ?thesis by (simp add: scenarioC4_def)
qed

section \<open>Claim C1: arrival\<close>

lemma handleInput_fields [simp]:
  "player_x (handleInput g k s) = player_x s"
  "player_y (handleInput g k s) = player_y s"
  "speedMultiplier (handleInput g k s) = speedMultiplier s"
  "tickEnabled (handleInput g k s) = tickEnabled s"
  "canMove (handleInput g k s) = canMove s"
  "wasMoving (handleInput g k s) = wasMoving s"
  "tile (handleInput g k s) = tile s"
  "money (handleInput g k s) = money s"
  "chargeReq (handleInput g k s) = chargeReq s"
  "maxFuel (handleInput g k s) = maxFuel s"
  "tank (handleInput g k s) = tank s"
  "fuel (handleInput g k s) = fuel s"
  "fuelDebounce (handleInput g k s) = fuelDebounce s"
  "hold_mapTiles (handleInput g k s) = hold_mapTiles s"
  "hold_capacity (handleInput g k s) = hold_capacity s"
  "fg_tiles (handleInput g k s) = fg_tiles s"
  "seed (handleInput g k s) = seed s"
  "currentUI (handleInput g k s) = currentUI s"
  "waypoints (handleInput g k s) = waypoints s"
  "overlay (handleInput g k s) = overlay s"
  "events (handleInput g k s) = events s"
  "messages (handleInput g k s) = messages s"
  "timers (handleInput g k s) = timers s"
  "localStorage (handleInput g k s) = localStorage s"
  by (simp_all add: handleInput_def kpCharge_def commitMove_def Let_def
        split: option.split)

lemma pollInput_fields [simp]:
  "player_x (pollInput g k s) = player_x s"
  "player_y (pollInput g k s) = player_y s"
  "speedMultiplier (pollInput g k s) = speedMultiplier s"
  "tickEnabled (pollInput g k s) = tickEnabled s"
  "canMove (pollInput g k s) = canMove s"
  "wasMoving (pollInput g k s) = wasMoving s"
  "tile (pollInput g k s) = tile s"
  "money (pollInput g k s) = money s"
  "chargeReq (pollInput g k s) = chargeReq s"
  "maxFuel (pollInput g k s) = maxFuel s"
  "tank (pollInput g k s) = tank s"
  "fuel (pollInput g k s) = fuel s"
  "fuelDebounce (pollInput g k s) = fuelDebounce s"
  "hold_mapTiles (pollInput g k s) = hold_mapTiles s"
  "hold_capacity (pollInput g k s) = hold_capacity s"
  "fg_tiles (pollInput g k s) = fg_tiles s"
  "seed (pollInput g k s) = seed s"
  "currentUI (pollInput g k s) = currentUI s"
  "waypoints (pollInput g k s) = waypoints s"
  "overlay (pollInput g k s) = overlay s"
  "events (pollInput g k s) = events s"
  "messages (pollInput g k s) = messages s"
  "timers (pollInput g k s) = timers s"
  "localStorage (pollInput g k s) = localStorage s"
  by (simp_all add: pollInput_def)

lemma pollInput_moving: "moving s \<Longrightarrow> pollInput g k s = s"
  by (simp add: pollInput_def)

lemma arrive_mineable:
  assumes "fg_tiles s (getTilePositionFromPixelPosition g (fst (targetPos s)) (snd (targetPos s))) = Some mt"
    and "\<not> interactable (properties mt)"
    and "t = getTilePositionFromPixelPosition g (fst (targetPos s)) (snd (targetPos s))"
  shows "fg_tiles (arrive g s) = (fg_tiles s)(t := None)"
    and "hold_mapTiles (arrive g s) = addMapTile mt (hold_mapTiles s)"
    and "events (arrive g s) = events s @ [TileDestroy t, TileMove t]"
  using assms by (simp_all add: arrive_def Let_def)

lemma arrive_interactable:
  assumes "fg_tiles s (getTilePositionFromPixelPosition g (fst (targetPos s)) (snd (targetPos s))) = Some mt"
    and "interactable (properties mt)"
    and "t = getTilePositionFromPixelPosition g (fst (targetPos s)) (snd (targetPos s))"
  shows "fg_tiles (arrive g s) = fg_tiles s"
    and "hold_mapTiles (arrive g s) = hold_mapTiles s"
    and "events (arrive g s) = events s @ [TileMove t]"
  using assms by (simp_all add: arrive_def Let_def)

lemma arrive_empty:
  assumes "fg_tiles s (getTilePositionFromPixelPosition g (fst (targetPos s)) (snd (targetPos s))) = None"
    and "t = getTilePositionFromPixelPosition g (fst (targetPos s)) (snd (targetPos s))"
  shows "fg_tiles (arrive g s) = fg_tiles s"
    and "hold_mapTiles (arrive g s) = hold_mapTiles s"
    and "events (arrive g s) = events s @ [TileMove t]"
  using assms by (simp_all add: arrive_def Let_def)

lemma arrivalTick_tick:
  assumes "arrivalTick g pressedKeys delta s"
  shows "tick g pressedKeys delta s
         = updateWasMoving (arrive g (performMovement delta (drainFuel g delta (pollInput g pressedKeys s))))"
  using assms by (simp add: arrivalTick_def movingTick_def tick_def moveStep_def Let_def)

text \<open>
  C1. Whenever a tick completes a committed move (it runs the body of the
  movement-completion check), with \<open>t\<close> the cell of the target: if the map holds a
  non-interactable tile at \<open>t\<close>, the tick removes exactly that entry from \<open>fg_tiles\<close>,
  appends exactly one cargo entry with the tile's name and value to the hold, and
  dispatches \<open>tiledestroy\<close> and then \<open>tilemove\<close> for \<open>t\<close>; if the tile is
  interactable, only \<open>tilemove\<close> is dispatched, and the store (with the tile in it)
  and the hold are unchanged; if the cell is empty, only \<open>tilemove\<close> is dispatched
  and the store and the hold are unchanged.
\<close>

theorem C1_arrival:
  assumes "arrivalTick g pressedKeys delta s"
    and "t = arrivalCell g pressedKeys s"
    and "s' = tick g pressedKeys delta s"
  shows "case fg_tiles s t of
           Some maptile \<Rightarrow>
             if interactable (properties maptile)
             then events s' = events s @ [TileMove t] \<and> fg_tiles s' = fg_tiles s
                  \<and> fg_tiles s' t = Some maptile \<and> hold_mapTiles s' = hold_mapTiles s
             else fg_tiles s' = (fg_tiles s)(t := None)
                  \<and> hold_mapTiles s' = hold_mapTiles s @
                       [\<lparr>item_name = name (properties maptile),
                         item_value = tile_value (properties maptile)\<rparr>]
                  \<and> events s' = events s @ [TileDestroy t, TileMove t]
         | None \<Rightarrow>
             events s' = events s @ [TileMove t] \<and> fg_tiles s' = fg_tiles s
             \<and> hold_mapTiles s' = hold_mapTiles s"
proof -
  let ?m = "performMovement delta (drainFuel g delta (pollInput g pressedKeys s))"
  have s': "s' = updateWasMoving (arrive g ?m)"
    using assms(1,3) by (simp add: arrivalTick_tick)
  have t: "t = getTilePositionFromPixelPosition g (fst (targetPos ?m)) (snd (targetPos ?m))"
    using assms(2) by (simp add: arrivalCell_def)
  have fg: "fg_tiles ?m = fg_tiles s" and ev: "events ?m = events s"
    and ho: "hold_mapTiles ?m = hold_mapTiles s"
    by simp_all
  show ?thesis
  proof (cases "fg_tiles s t")
    case None
    then have "fg_tiles ?m (getTilePositionFromPixelPosition g (fst (targetPos ?m)) (snd (targetPos ?m))) = None"
      using t fg by simp
    from arrive_empty[OF this t] None show ?thesis
      by (simp add: s' fg ev ho)
  next
    case (Some maptile)
    then have look: "fg_tiles ?m (getTilePositionFromPixelPosition g (fst (targetPos ?m)) (snd (targetPos ?m))) = Some maptile"
      using t fg by simp
    show ?thesis
    proof (cases "interactable (properties maptile)")
      case True
      from arrive_interactable[OF look True t] Some True show ?thesis
        by (simp add: s' fg ev ho)
    next
      case False
      from arrive_mineable[OF look False t] Some False show ?thesis
        by (simp add: s' fg ev ho addMapTile_def)
    qed
  qed
qed

text \<open>
  The three cases on the display grid: a player one pixel short of the cell (11, 8),
  which holds a coal tile, a shop, or nothing.
\<close>

lemma arrivingPlayer_arrives:
  "arrivalTick displayGrid [] 16 (arrivingPlayer fg)"
  "arrivalCell displayGrid [] (arrivingPlayer fg) = (11, 8)"
  by (simp_all add: arrivalTick_def movingTick_def arrivalCell_def arrivingPlayer_def pollInput_def drainFuel_def
      performMovement_def movementComplete_def displayGrid_def defaultSpeed_def updateFuel_def
      horizonLine_def horizonLineGU_def getTilePositionFromPixelPosition_def Let_def)

lemma arrivingPlayer_fields:
  "fg_tiles (arrivingPlayer fg) = fg"
  "events (arrivingPlayer fg) = []"
  "hold_mapTiles (arrivingPlayer fg) = []"
  by (simp_all add: arrivingPlayer_def)

theorem C1_arrival_witness:
  "arrivalTick displayGrid [] 16 (arrivingPlayer [(11, 8) \<mapsto> coalAt (11, 8)])
   \<and> fg_tiles (tick displayGrid [] 16 (arrivingPlayer [(11, 8) \<mapsto> coalAt (11, 8)])) (11, 8) = None
   \<and> hold_mapTiles (tick displayGrid [] 16 (arrivingPlayer [(11, 8) \<mapsto> coalAt (11, 8)]))
       = [\<lparr>item_name = ''Coal'', item_value = 30\<rparr>]
   \<and> events (tick displayGrid [] 16 (arrivingPlayer [(11, 8) \<mapsto> coalAt (11, 8)]))
       = [TileDestroy (11, 8), TileMove (11, 8)]
   \<and> arrivalTick displayGrid [] 16 (arrivingPlayer [(11, 8) \<mapsto> shopAt (11, 8)])
   \<and> fg_tiles (tick displayGrid [] 16 (arrivingPlayer [(11, 8) \<mapsto> shopAt (11, 8)])) (11, 8)
       = Some (shopAt (11, 8))
   \<and> events (tick displayGrid [] 16 (arrivingPlayer [(11, 8) \<mapsto> shopAt (11, 8)]))
       = [TileMove (11, 8)]
   \<and> arrivalTick displayGrid [] 16 (arrivingPlayer Map.empty)
   \<and> events (tick displayGrid [] 16 (arrivingPlayer Map.empty)) = [TileMove (11, 8)]
   \<and> fg_tiles (tick displayGrid [] 16 (arrivingPlayer Map.empty)) = Map.empty"
  using C1_arrival[OF arrivingPlayer_arrives(1) arrivingPlayer_arrives(2)[symmetric] refl,
          of "[(11, 8) \<mapsto> coalAt (11, 8)]"]
        C1_arrival[OF arrivingPlayer_arrives(1) arrivingPlayer_arrives(2)[symmetric] refl,
          of "[(11, 8) \<mapsto> shopAt (11, 8)]"]
        C1_arrival[OF arrivingPlayer_arrives(1) arrivingPlayer_arrives(2)[symmetric] refl,
          of Map.empty]
        arrivingPlayer_arrives(1)
  by (simp add: arrivingPlayer_fields coalAt_def shopAt_def shopProps_def)

section \<open>The charge invariant\<close>

lemma resetPos_charge [simp]:
  "tickEnabled (resetPos g s) = tickEnabled s"
  "charge (resetPos g s) = charge s"
  "chargeReq (resetPos g s) = chargeReq s"
  by (simp_all add: resetPos_def Let_def)

lemma chargeInv_handleInput: "chargeInv s \<Longrightarrow> chargeInv (handleInput g k s)"
  by (auto simp add: chargeInv_def handleInput_def kpCharge_def commitMove_def Let_def
        split: option.split)

lemma chargeInv_pollInput: "chargeInv s \<Longrightarrow> chargeInv (pollInput g k s)"
  by (simp add: pollInput_def chargeInv_handleInput)

lemma chargeInv_outOfFuel: "chargeInv s \<Longrightarrow> chargeInv (outOfFuel s)"
  by (simp add: chargeInv_def outOfFuel_def)

lemma chargeInv_cong:
  "tickEnabled s' = tickEnabled s \<Longrightarrow> charge s' = charge s \<Longrightarrow> chargeReq s' = chargeReq s
   \<Longrightarrow> chargeInv s \<Longrightarrow> chargeInv s'"
  by (simp add: chargeInv_def)

lemma chargeInv_tick: "chargeInv s \<Longrightarrow> chargeInv (tick g k delta s)"
proof -
  assume inv: "chargeInv s"
  have p: "chargeInv (pollInput g k s)" using inv by (rule chargeInv_pollInput)
  have m: "chargeInv (updateWasMoving (moveStep g delta (pollInput g k s)))"
    by (rule chargeInv_cong[OF _ _ _ p]) simp_all
  have u: "chargeInv (updateWasMoving (pollInput g k s))"
    by (rule chargeInv_cong[OF _ _ _ p]) simp_all
  show ?thesis
    using inv p m u by (simp add: tick_def Let_def chargeInv_outOfFuel)
qed

lemma chargeInv_fireTimer: "chargeInv s \<Longrightarrow> chargeInv (fireTimer g s)"
proof (cases "timers s")
  case Nil
  then show "chargeInv s \<Longrightarrow> ?thesis" by (simp add: fireTimer_def)
next
  case (Cons cb rest)
  then show "chargeInv s \<Longrightarrow> ?thesis"
    by (cases cb) (simp_all add: fireTimer_def chargeInv_def Let_def updateFuel_def)
qed

lemma handlePurchase_charge [simp]:
  "tickEnabled (handlePurchase item answer s) = tickEnabled s"
  "charge (handlePurchase item answer s) = charge s"
  "chargeReq (handlePurchase item answer s) = chargeReq s"
  by (simp_all add: handlePurchase_def purchased_def showMessage_def closeUI_def Let_def
        split: ItemId.split)

lemma applySaveData_charge [simp]:
  "tickEnabled (snd (applySaveData g saveData s)) = tickEnabled s"
  "charge (snd (applySaveData g saveData s)) = charge s"
  "chargeReq (snd (applySaveData g saveData s)) = chargeReq s"
  by (simp_all add: applySaveData_def Let_def split: option.split)

lemma chargeInv_step: "chargeInv s \<Longrightarrow> chargeInv (step g a s)"
proof (cases a)
  case (Tick k delta)
  then show "chargeInv s \<Longrightarrow> ?thesis" by (simp add: step_def chargeInv_tick)
next
  case Timer
  then show "chargeInv s \<Longrightarrow> ?thesis" by (simp add: step_def chargeInv_fireTimer)
next
  case (ClickItem i answer)
  then show "chargeInv s \<Longrightarrow> ?thesis"
    by (simp add: step_def chargeInv_def split: option.split)
next
  case ClickClose
  then show "chargeInv s \<Longrightarrow> ?thesis"
    by (simp add: step_def chargeInv_def closeUI_def split: option.split)
next
  case AutoLoad
  then show "chargeInv s \<Longrightarrow> ?thesis"
    by (simp add: step_def chargeInv_def split: option.split)
qed

lemma chargeInv_startGame:
  assumes "startGame tr g prng now capacity store = Inr s"
  shows "chargeInv s"
  using assms
  by (auto simp add: chargeInv_def startGame_def generate_def newGame_def Let_def
        split: sum.splits)

lemma reachable_chargeInv: "reachable tr g s \<Longrightarrow> chargeInv s"
  by (induction rule: reachable.induct) (simp_all add: chargeInv_startGame chargeInv_step)

lemma idle_tick_charge:
  assumes "tickEnabled s" "0 < fuel s" "canMove s" "\<not> moving s" "0 \<le> charge s"
    and "checkDirection pressedKeys = None"
  shows "charge (tick g pressedKeys delta s) = 0"
  using assms by (simp add: tick_def pollInput_def handleInput_def Let_def)

section \<open>Map generation: what the loops build\<close>

lemma genCoalCell_eq:
  "genCoalCell tr rnd gX gY (fg, k)
   = (if coalDraw rnd k then fg((int gX, int gY) \<mapsto> newTile tr Coal (int gX, int gY)) else fg,
      Suc k)"
  by (simp add: genCoalCell_def shouldGenType_def genType_def coalDraw_def Let_def)

lemma genCoalColumn:
  "fold (genCoalCell tr rnd gX) [lo ..< lo + n] (fg, k)
   = (\<lambda>t. if \<exists>j<n. t = (int gX, int (lo + j)) \<and> coalDraw rnd (k + j)
           then Some (newTile tr Coal t) else fg t,
      k + n)"
proof (induction n)
  case 0
  then show ?case by simp
next
  case (Suc n)
  have "fold (genCoalCell tr rnd gX) [lo ..< lo + Suc n] (fg, k)
        = genCoalCell tr rnd gX (lo + n) (fold (genCoalCell tr rnd gX) [lo ..< lo + n] (fg, k))"
    by simp
  also have "\<dots> = (\<lambda>t. if \<exists>j<Suc n. t = (int gX, int (lo + j)) \<and> coalDraw rnd (k + j)
           then Some (newTile tr Coal t) else fg t,
      k + Suc n)"
    unfolding Suc.IH genCoalCell_eq
    by (auto simp add: fun_eq_iff less_Suc_eq)
  finally show ?case .
qed

lemma genCoalColumns:
  "fold (\<lambda>gX. fold (genCoalCell tr rnd gX) [lo ..< lo + n]) [0 ..< w] (fg, k)
   = (\<lambda>t. if \<exists>gX<w. \<exists>j<n. t = (int gX, int (lo + j)) \<and> coalDraw rnd (k + gX * n + j)
           then Some (newTile tr Coal t) else fg t,
      k + w * n)"
proof (induction w)
  case 0
  then show ?case by simp
next
  case (Suc w)
  show ?case
    apply (simp only: upt_Suc_append[OF le0] fold_append comp_def fold_simps Suc.IH genCoalColumn)
    apply (auto simp add: fun_eq_iff less_Suc_eq add.assoc)
    done
qed

lemma genCoalLayer_eq:
  "fst (genCoalLayer tr g rnd (fg, 0)) t
   = (if \<exists>gX<widthGU g. \<exists>j<20. t = (int gX, int (horizonLineGU + 1 + j)) \<and> coalDraw rnd (gX * 20 + j)
      then Some (newTile tr Coal t) else fg t)"
proof -
  have e: "horizonLineGU + 21 = horizonLineGU + 1 + 20"
    by simp
  have "genCoalLayer tr g rnd (fg, 0)
        = fold (\<lambda>gX. fold (genCoalCell tr rnd gX) [horizonLineGU + 1 ..< horizonLineGU + 1 + 20])
            [0 ..< widthGU g] (fg, 0)"
    unfolding genCoalLayer_def e ..
  then show ?thesis
    by (simp only: genCoalColumns fst_conv add_0)
qed

lemma genDirtRow:
  "fold (\<lambda>gX fg'. fg'((int gX, y) \<mapsto> newTile tr Dirt (int gX, y))) [0 ..< w] fg
   = (\<lambda>t. if \<exists>gX<w. t = (int gX, y) then Some (newTile tr Dirt t) else fg t)"
  by (induction w) (auto simp add: fun_eq_iff less_Suc_eq)

lemma genDirtRows:
  "fold (\<lambda>gY. fold (\<lambda>gX fg'. fg'((int gX, int gY) \<mapsto> newTile tr Dirt (int gX, int gY))) [0 ..< w])
        [lo ..< lo + n] fg
   = (\<lambda>t. if \<exists>gX<w. \<exists>j<n. t = (int gX, int (lo + j)) then Some (newTile tr Dirt t) else fg t)"
proof (induction n)
  case 0
  then show ?case by simp
next
  case (Suc n)
  have "[lo ..< lo + Suc n] = [lo ..< lo + n] @ [lo + n]" by simp
  then show ?case
    apply (simp only: fold_append comp_def fold_simps Suc.IH)
    apply (simp only: genDirtRow)
    apply (auto simp add: fun_eq_iff less_Suc_eq)
    done
qed

lemma genDirt_eq:
  "genDirt tr g fg t
   = (if \<exists>gX<widthGU g. \<exists>gY. horizonLineGU + 1 \<le> gY \<and> gY < heightGU g \<and> t = (int gX, int gY)
      then Some (newTile tr Dirt t) else fg t)"
proof (cases "horizonLineGU + 1 \<le> heightGU g")
  case True
  then obtain n where n: "heightGU g = horizonLineGU + 1 + n"
    using le_Suc_ex by blast
  have "(\<exists>gX<widthGU g. \<exists>j<n. t = (int gX, int (horizonLineGU + 1 + j)))
        \<longleftrightarrow> (\<exists>gX<widthGU g. \<exists>gY. horizonLineGU + 1 \<le> gY \<and> gY < heightGU g \<and> t = (int gX, int gY))"
    (is "?L \<longleftrightarrow> ?R")
  proof
    assume ?L
    then obtain gX j where "gX < widthGU g" "j < n" "t = (int gX, int (horizonLineGU + 1 + j))"
      by blast
    then have "gX < widthGU g \<and> horizonLineGU + 1 \<le> horizonLineGU + 1 + j
               \<and> horizonLineGU + 1 + j < heightGU g \<and> t = (int gX, int (horizonLineGU + 1 + j))"
      using n by simp
    then show ?R by blast
  next
    assume ?R
    then obtain gX gY where h: "gX < widthGU g" "horizonLineGU + 1 \<le> gY" "gY < heightGU g"
      "t = (int gX, int gY)" by blast
    then have "gX < widthGU g \<and> gY - (horizonLineGU + 1) < n
               \<and> t = (int gX, int (horizonLineGU + 1 + (gY - (horizonLineGU + 1))))"
      using n by simp
    then show ?L by blast
  qed
  then show ?thesis
    unfolding genDirt_def n by (simp only: genDirtRows)
next
  case False
  then show ?thesis by (auto simp add: genDirt_def)
qed

lemma genSurfaceCell_Inr:
  assumes "genSurfaceCell tr g i fg = Inr fg'" and "i < widthGU g"
  shows "fg' = fg((int i, int horizonLineGU) \<mapsto> newTile tr (surfaceClass i) (int i, int horizonLineGU))"
  using assms
  by (auto simp add: genSurfaceCell_def surfaceClass_def Let_def
        split: option.splits Export.splits)

lemma genSurfaceCell_returns:
  assumes "i < 25"
  shows "\<exists>fg'. genSurfaceCell tr g i fg = Inr fg'"
  using assms
  by (simp add: genSurfaceCell_def surfaceBuildings_def Let_def)

lemma genSurfaceCell_throws:
  assumes "25 < widthGU g"
  shows "genSurfaceCell tr g 25 fg = Inl TypeError"
  using assms
  by (simp add: genSurfaceCell_def surfaceBuildings_def Let_def)

lemma genSurfaceFrom_append:
  "genSurfaceFrom tr g (xs @ ys) fg
   = (case genSurfaceFrom tr g xs fg of Inl e \<Rightarrow> Inl e | Inr fg' \<Rightarrow> genSurfaceFrom tr g ys fg')"
  by (induction xs arbitrary: fg) (simp_all split: sum.split)

lemma genSurface_upto:
  assumes "w \<le> widthGU g" and "genSurfaceFrom tr g [0 ..< w] fg = Inr fg1"
  shows "fg1 = (\<lambda>t. if \<exists>i<w. t = (int i, int horizonLineGU)
                     then Some (newTile tr (surfaceClass (nat (fst t))) t) else fg t)"
  using assms
proof (induction w arbitrary: fg1)
  case 0
  then show ?case by simp
next
  case (Suc w)
  from Suc.prems(2) obtain fg0 where
    f0: "genSurfaceFrom tr g [0 ..< w] fg = Inr fg0" and
    c: "genSurfaceCell tr g w fg0 = Inr fg1"
    by (auto simp add: genSurfaceFrom_append split: sum.splits)
  have w: "w < widthGU g" "w \<le> widthGU g"
    using Suc.prems(1) by simp_all
  have fg0: "fg0 = (\<lambda>t. if \<exists>i<w. t = (int i, int horizonLineGU)
                     then Some (newTile tr (surfaceClass (nat (fst t))) t) else fg t)"
    using Suc.IH[OF w(2) f0] .
  have "fg1 = fg0((int w, int horizonLineGU) \<mapsto> newTile tr (surfaceClass w) (int w, int horizonLineGU))"
    using c w(1) by (rule genSurfaceCell_Inr)
  then show ?case
    unfolding fg0 by (auto simp add: fun_eq_iff less_Suc_eq)
qed

lemma genSurface_upto_returns:
  assumes "w \<le> 25"
  shows "\<exists>fg1. genSurfaceFrom tr g [0 ..< w] fg = Inr fg1"
  using assms
proof (induction w)
  case 0
  then show ?case by simp
next
  case (Suc w)
  then obtain fg0 where f0: "genSurfaceFrom tr g [0 ..< w] fg = Inr fg0"
    by auto
  have "w < 25" using Suc.prems by simp
  then obtain fg1 where "genSurfaceCell tr g w fg0 = Inr fg1"
    using genSurfaceCell_returns by blast
  then show ?case
    by (simp add: genSurfaceFrom_append f0)
qed

lemma genSurface_returns:
  assumes "widthGU g \<le> 25"
  shows "\<exists>fg1. genSurface tr g fg = Inr fg1"
  unfolding genSurface_def using assms by (rule genSurface_upto_returns)

lemma genSurface_throws:
  assumes "25 < widthGU g"
  shows "genSurface tr g fg = Inl TypeError"
proof -
  have e: "25 + (widthGU g - 25) = widthGU g"
    using assms by simp
  have l1: "[0 ..< widthGU g] = [0 ..< 25] @ [25 ..< widthGU g]"
    by (metis e le0 upt_add_eq_append)
  have l2: "[25 ..< widthGU g] = 25 # [Suc 25 ..< widthGU g]"
    using assms by (rule upt_conv_Cons)
  obtain fg0 where f0: "genSurfaceFrom tr g [0 ..< 25] fg = Inr fg0"
    using genSurface_upto_returns[of 25] by blast
  have "genSurfaceFrom tr g (25 # [Suc 25 ..< widthGU g]) fg0 = Inl TypeError"
    by (simp only: genSurfaceFrom.simps genSurfaceCell_throws[OF assms] sum.case)
  then show ?thesis
    unfolding genSurface_def l1 l2
    by (simp only: genSurfaceFrom_append f0 sum.case)
qed

lemma genSurface_eq:
  assumes "genSurface tr g fg = Inr fg1"
  shows "fg1 t
   = (if \<exists>i<widthGU g. t = (int i, int horizonLineGU)
      then Some (newTile tr (surfaceClass (nat (fst t))) t) else fg t)"
  using genSurface_upto[OF le_refl assms[unfolded genSurface_def]] by simp

lemma generate_returns:
  assumes "widthGU g \<le> 25"
  shows "\<exists>s'. generate tr g prng seedArg now s = Inr s'"
proof -
  obtain fg1 where "genSurface tr g (fg_tiles s) = Inr fg1"
    using genSurface_returns[OF assms] by blast
  then show ?thesis by (simp add: generate_def Let_def)
qed

lemma generate_throws:
  assumes "25 < widthGU g"
  shows "generate tr g prng seedArg now s = Inl TypeError"
  by (simp add: generate_def Let_def genSurface_throws[OF assms])

lemma generate_fields:
  assumes "generate tr g prng seedArg now s = Inr s'"
  shows "s' = s\<lparr>seed := js_or seedArg now, fg_tiles := fg_tiles s'\<rparr>"
  using assms by (auto simp add: generate_def Let_def split: sum.splits)

lemma generate_cell:
  assumes "generate tr g prng seedArg now s = Inr s'"
  shows "fg_tiles s' t
   = (if \<exists>gX<widthGU g. \<exists>j<20. t = (int gX, int (horizonLineGU + 1 + j))
           \<and> coalDraw (prng (js_or seedArg now)) (gX * 20 + j)
      then Some (newTile tr Coal t)
      else if \<exists>gX<widthGU g. \<exists>gY. horizonLineGU + 1 \<le> gY \<and> gY < heightGU g \<and> t = (int gX, int gY)
      then Some (newTile tr Dirt t)
      else if \<exists>i<widthGU g. t = (int i, int horizonLineGU)
      then Some (newTile tr (surfaceClass (nat (fst t))) t)
      else fg_tiles s t)"
proof -
  from assms obtain fg1 where
    f1: "genSurface tr g (fg_tiles s) = Inr fg1" and
    s': "fg_tiles s' t = fst (genCoalLayer tr g (prng (js_or seedArg now)) (genDirt tr g fg1, 0)) t"
    by (auto simp add: generate_def Let_def split: sum.splits)
  show ?thesis
    unfolding s' by (simp only: genCoalLayer_eq genDirt_eq genSurface_eq[OF f1])
qed

lemma newTile_cls [simp]: "cls (newTile tr c t) = c"
  by (simp add: newTile_def)

lemma band_rows:
  "(\<exists>gX<w. \<exists>j<20. t = (int gX, int (horizonLineGU + 1 + j)) \<and> P (gX * 20 + j))
   \<longleftrightarrow> (\<exists>gX gY. t = (int gX, int gY) \<and> gX < w \<and> horizonLineGU + 1 \<le> gY
         \<and> gY \<le> horizonLineGU + 20 \<and> P (cellDraw gX gY))"
  (is "?L \<longleftrightarrow> ?R")
proof
  assume ?L
  then obtain gX j where h: "gX < w" "j < 20" "t = (int gX, int (horizonLineGU + 1 + j))"
    "P (gX * 20 + j)" by blast
  then have "t = (int gX, int (horizonLineGU + 1 + j)) \<and> gX < w
             \<and> horizonLineGU + 1 \<le> horizonLineGU + 1 + j
             \<and> horizonLineGU + 1 + j \<le> horizonLineGU + 20
             \<and> P (cellDraw gX (horizonLineGU + 1 + j))"
    by (simp add: cellDraw_def)
  then show ?R by blast
next
  assume ?R
  then obtain gX gY where h: "t = (int gX, int gY)" "gX < w" "horizonLineGU + 1 \<le> gY"
    "gY \<le> horizonLineGU + 20" "P (cellDraw gX gY)" by blast
  then have "gX < w \<and> gY - (horizonLineGU + 1) < 20
             \<and> t = (int gX, int (horizonLineGU + 1 + (gY - (horizonLineGU + 1))))
             \<and> P (gX * 20 + (gY - (horizonLineGU + 1)))"
    by (simp add: cellDraw_def)
  then show ?L by blast
qed

lemma generate_cell_rows:
  assumes "generate tr g prng seedArg now s = Inr s'"
  shows "fg_tiles s' t
   = (if \<exists>gX gY. t = (int gX, int gY) \<and> gX < widthGU g \<and> horizonLineGU + 1 \<le> gY
           \<and> gY \<le> horizonLineGU + 20 \<and> coalDraw (prng (js_or seedArg now)) (cellDraw gX gY)
      then Some (newTile tr Coal t)
      else if \<exists>gX<widthGU g. \<exists>gY. horizonLineGU + 1 \<le> gY \<and> gY < heightGU g \<and> t = (int gX, int gY)
      then Some (newTile tr Dirt t)
      else if \<exists>i<widthGU g. t = (int i, int horizonLineGU)
      then Some (newTile tr (surfaceClass (nat (fst t))) t)
      else fg_tiles s t)"
  unfolding generate_cell[OF assms] band_rows ..

lemma surfaceClass_not_Coal: "surfaceClass i \<noteq> Coal"
  by (simp add: surfaceClass_def surfaceBuildings_def)

lemma newGame_fg: "fg_tiles (newGame g capacity store) = Map.empty"
  by (simp add: newGame_def resetPos_def Let_def)

lemma narrowStart_started:
  "startGame exampleTerrain narrowGrid prng 1 10 None = Inr (narrowStart prng)"
proof -
  have "widthGU narrowGrid \<le> 25" by (simp add: narrowGrid_def)
  then obtain s' where "startGame exampleTerrain narrowGrid prng 1 10 None = Inr s'"
    unfolding startGame_def using generate_returns by blast
  then show ?thesis by (simp add: narrowStart_def)
qed

lemma narrowStart_cell:
  "fg_tiles (narrowStart prng) t
   = (if \<exists>gX gY. t = (int gX, int gY) \<and> gX < 24 \<and> 9 \<le> gY \<and> gY \<le> 28
           \<and> coalDraw (prng 1) (cellDraw gX gY)
      then Some (newTile exampleTerrain Coal t)
      else if \<exists>gX<24. \<exists>gY. 9 \<le> gY \<and> gY < 40 \<and> t = (int gX, int gY)
      then Some (newTile exampleTerrain Dirt t)
      else if \<exists>i<24. t = (int i, 8)
      then Some (newTile exampleTerrain (surfaceClass (nat (fst t))) t)
      else None)"
proof -
  have r: "generate exampleTerrain narrowGrid prng None 1 (newGame narrowGrid 10 None)
           = Inr (narrowStart prng)"
    using narrowStart_started[of prng] by (simp add: startGame_def)
  have w: "widthGU narrowGrid = 24" "heightGU narrowGrid = 40" "horizonLineGU + 1 = 9"
    "horizonLineGU + 20 = 28" "int horizonLineGU = 8" "js_or None 1 = 1"
    by (simp_all add: narrowGrid_def horizonLineGU_def js_or_def)
  show ?thesis
    unfolding generate_cell_rows[OF r] w newGame_fg by (rule refl)
qed

lemma displayGrid_throws:
  "startGame tr displayGrid prng now capacity store = Inl TypeError"
  unfolding startGame_def by (rule generate_throws) (simp add: displayGrid_def)

lemma cellDraw_inj:
  "inj_on (\<lambda>(gX, gY). cellDraw gX gY)
     {(gX, gY). horizonLineGU + 1 \<le> gY \<and> gY \<le> horizonLineGU + 20}"
proof (rule inj_onI, clarify)
  fix a b c d
  assume h: "horizonLineGU + 1 \<le> b" "b \<le> horizonLineGU + 20"
    "horizonLineGU + 1 \<le> d" "d \<le> horizonLineGU + 20"
    "cellDraw a b = cellDraw c d"
  define b' where "b' = b - (horizonLineGU + 1)"
  define d' where "d' = d - (horizonLineGU + 1)"
  have lt: "b' < 20" "d' < 20"
    using h by (simp_all add: b'_def d'_def)
  have e: "a * 20 + b' = c * 20 + d'"
    using h(5) by (simp add: cellDraw_def b'_def d'_def)
  have "(a * 20 + b') div 20 = a" "(c * 20 + d') div 20 = c"
    using lt by simp_all
  with e have ac: "a = c" by simp
  with e have "b' = d'" by simp
  then have "b = d"
    using h(1,3) by (simp add: b'_def d'_def)
  with ac show "a = c \<and> b = d" by simp
qed

section \<open>Claim C9: the coal layer\<close>

text \<open>
  C9 (as amended). Whenever map generation, started on an empty store, runs to its
  end, a cell holds a Coal tile exactly when it lies in columns \<open>0 .. widthGU - 1\<close>
  and in the 20 rows \<open>horizonLineGU + 1 .. horizonLineGU + 20\<close> and its draw \<open>r\<close> of
  the seeded generator satisfies \<open>r * 100 \<le> 7.5\<close> (for a uniform draw, a chance of 7.5
  percent); a cell of the band inside the map whose draw fails keeps its Dirt tile;
  and every cell of the band has a draw of its own. Generation does run to its end on
  every grid of at most 25 columns.
\<close>

theorem C9_coal_band:
  assumes "fg_tiles s = Map.empty"
  shows "(widthGU g \<le> 25 \<longrightarrow> (\<exists>s'. generate tr g prng seedArg now s = Inr s'))
       \<and> (\<forall>s'. generate tr g prng seedArg now s = Inr s' \<longrightarrow>
            (\<forall>t. map_option cls (fg_tiles s' t) = Some Coal
                 \<longleftrightarrow> (\<exists>gX gY. t = (int gX, int gY) \<and> gX < widthGU g
                       \<and> horizonLineGU + 1 \<le> gY \<and> gY \<le> horizonLineGU + 20
                       \<and> prng (js_or seedArg now) (cellDraw gX gY) * 100 \<le> 75 / 10))
            \<and> (\<forall>gX gY. gX < widthGU g \<and> horizonLineGU + 1 \<le> gY \<and> gY \<le> horizonLineGU + 20
                  \<and> gY < heightGU g
                  \<and> \<not> prng (js_or seedArg now) (cellDraw gX gY) * 100 \<le> 75 / 10
                  \<longrightarrow> map_option cls (fg_tiles s' (int gX, int gY)) = Some Dirt))
       \<and> inj_on (\<lambda>(gX, gY). cellDraw gX gY)
            {(gX, gY). horizonLineGU + 1 \<le> gY \<and> gY \<le> horizonLineGU + 20}"
proof (intro conjI allI impI)
  assume "widthGU g \<le> 25"
  then show "\<exists>s'. generate tr g prng seedArg now s = Inr s'"
    by (rule generate_returns)
next
  fix s' t
  assume r: "generate tr g prng seedArg now s = Inr s'"
  show "map_option cls (fg_tiles s' t) = Some Coal
        \<longleftrightarrow> (\<exists>gX gY. t = (int gX, int gY) \<and> gX < widthGU g
              \<and> horizonLineGU + 1 \<le> gY \<and> gY \<le> horizonLineGU + 20
              \<and> prng (js_or seedArg now) (cellDraw gX gY) * 100 \<le> 75 / 10)"
    unfolding generate_cell_rows[OF r] coalDraw_def
    using assms surfaceClass_not_Coal by simp
next
  fix s' gX gY
  assume r: "generate tr g prng seedArg now s = Inr s'"
  assume h: "gX < widthGU g \<and> horizonLineGU + 1 \<le> gY \<and> gY \<le> horizonLineGU + 20
             \<and> gY < heightGU g \<and> \<not> prng (js_or seedArg now) (cellDraw gX gY) * 100 \<le> 75 / 10"
  then have d: "\<exists>gX'<widthGU g. \<exists>gY'. horizonLineGU + 1 \<le> gY' \<and> gY' < heightGU g
                  \<and> (int gX, int gY) = (int gX', int gY')"
    by blast
  have n: "\<not> (\<exists>gX' gY'. (int gX, int gY) = (int gX', int gY') \<and> gX' < widthGU g
             \<and> horizonLineGU + 1 \<le> gY' \<and> gY' \<le> horizonLineGU + 20
             \<and> coalDraw (prng (js_or seedArg now)) (cellDraw gX' gY'))"
    using h by (auto simp add: coalDraw_def)
  show "map_option cls (fg_tiles s' (int gX, int gY)) = Some Dirt"
    unfolding generate_cell_rows[OF r] using d n by simp
next
  show "inj_on (\<lambda>(gX, gY). cellDraw gX gY)
            {(gX, gY). horizonLineGU + 1 \<le> gY \<and> gY \<le> horizonLineGU + 20}"
    by (rule cellDraw_inj)
qed

text \<open>
  On the narrow grid, with a generator whose first draw passes the test and whose
  other draws fail: generation completes, the cell (0, 9) is coal and (0, 10) is dirt.
\<close>

theorem C9_coal_band_witness:
  "fg_tiles (newGame narrowGrid 10 None) = Map.empty
   \<and> widthGU narrowGrid \<le> 25
   \<and> generate exampleTerrain narrowGrid (\<lambda>sd k. if k = 0 then 0 else 1 / 2) None 1
         (newGame narrowGrid 10 None)
       = Inr (narrowStart (\<lambda>sd k. if k = 0 then 0 else 1 / 2))
   \<and> map_option cls (fg_tiles (narrowStart (\<lambda>sd k. if k = 0 then 0 else 1 / 2)) (0, 9))
       = Some Coal
   \<and> map_option cls (fg_tiles (narrowStart (\<lambda>sd k. if k = 0 then 0 else 1 / 2)) (0, 10))
       = Some Dirt"
proof -
  let ?s = "narrowStart (\<lambda>sd k. if k = 0 then 0 else 1 / 2)"
  have r: "generate exampleTerrain narrowGrid (\<lambda>sd k. if k = 0 then 0 else 1 / 2) None 1
             (newGame narrowGrid 10 None) = Inr ?s"
    using narrowStart_started[of "\<lambda>sd k. if k = 0 then 0 else 1 / 2"]
    by (simp add: startGame_def)
  note th = C9_coal_band[OF newGame_fg, where tr = exampleTerrain and g = narrowGrid
      and prng = "\<lambda>sd k. if k = 0 then 0 else 1 / 2" and seedArg = None and now = 1
      and g1 = narrowGrid and capacity1 = 10 and store1 = None,
      THEN conjunct2, THEN conjunct1, rule_format, OF r]
  have "map_option cls (fg_tiles ?s (0, 9)) = Some Coal"
    by (rule th[THEN conjunct1, rule_format, THEN iffD2], intro exI[of _ 0] exI[of _ 9])
       (simp add: narrowGrid_def horizonLineGU_def cellDraw_def)
  moreover have "map_option cls (fg_tiles ?s (0, 10)) = Some Dirt"
    using th[THEN conjunct2, rule_format, of 0 10]
    by (simp add: narrowGrid_def horizonLineGU_def cellDraw_def)
  ultimately show ?thesis using r by (simp add: newGame_fg narrowGrid_def)
qed

text \<open>
  C9 as stated fails in the last row it names: on the narrow grid generation
  completes, and with a generator whose every draw passes the test, row
  \<open>horizonLineGU + 20 = 28\<close> is coal and row \<open>horizonLineGU + 21 = 29\<close> is still dirt.
\<close>

theorem C9_row_29_stays_dirt:
  "startGame exampleTerrain narrowGrid (\<lambda>sd k. 0) 1 10 None = Inr (narrowStart (\<lambda>sd k. 0))
   \<and> map_option cls (fg_tiles (narrowStart (\<lambda>sd k. 0)) (0, 28)) = Some Coal
   \<and> map_option cls (fg_tiles (narrowStart (\<lambda>sd k. 0)) (0, 29)) = Some Dirt"
proof -
  have a: "\<exists>gX gY. ((0, 28)::Tile) = (int gX, int gY) \<and> gX < 24 \<and> 9 \<le> gY \<and> gY \<le> 28
        \<and> coalDraw ((\<lambda>sd k. 0) 1) (cellDraw gX gY)"
    by (intro exI[of _ 0] exI[of _ 28]) (simp add: coalDraw_def)
  have b: "\<not> (\<exists>gX gY. ((0, 29)::Tile) = (int gX, int gY) \<and> gX < 24 \<and> 9 \<le> gY \<and> gY \<le> 28
        \<and> coalDraw ((\<lambda>sd k. 0) 1) (cellDraw gX gY))"
    by auto
  have c: "\<exists>gX<24. \<exists>gY. 9 \<le> gY \<and> gY < 40 \<and> ((0, 29)::Tile) = (int gX, int gY)"
    by (intro exI[of _ 0] conjI exI[of _ 29]) simp_all
  have "fg_tiles (narrowStart (\<lambda>sd k. 0)) (0, 28) = Some (newTile exampleTerrain Coal (0, 28))"
    unfolding narrowStart_cell using a by (simp only: if_True)
  moreover have "fg_tiles (narrowStart (\<lambda>sd k. 0)) (0, 29)
        = Some (newTile exampleTerrain Dirt (0, 29))"
    unfolding narrowStart_cell using b c by (simp only: if_True if_False)
  ultimately show ?thesis using narrowStart_started[of "\<lambda>sd k. 0"] by simp
qed

section \<open>The example session\<close>

lemma exampleMap_eq:
  "exampleMap t
   = (if \<exists>gX<24. \<exists>gY. 9 \<le> gY \<and> gY < 40 \<and> t = (int gX, int gY)
      then Some (newTile exampleTerrain Dirt t)
      else if \<exists>i<24. t = (int i, 8)
      then Some (newTile exampleTerrain (surfaceClass (nat (fst t))) t)
      else None)"
proof -
  have na: "\<not> (\<exists>gX gY. t = (int gX, int gY) \<and> gX < 24 \<and> 9 \<le> gY \<and> gY \<le> 28
        \<and> coalDraw ((\<lambda>sd k. 1 / 2) 1) (cellDraw gX gY))"
    by (simp add: coalDraw_def)
  show ?thesis
    unfolding exampleMap_def exampleStart_def narrowStart_cell using na
    by (simp only: if_False)
qed

lemma exampleMap_cells:
  "exampleMap (12, 8) = Some (newTile exampleTerrain Grass (12, 8))"
  "exampleMap (12, 9) = Some (newTile exampleTerrain Dirt (12, 9))"
  "exampleMap (12, 10) = Some (newTile exampleTerrain Dirt (12, 10))"
  "exampleMap (5, 8) = Some (shopAt (5, 8))"
proof -
  have nd: "\<And>x. \<not> (\<exists>gX<24. \<exists>gY. 9 \<le> gY \<and> gY < 40 \<and> ((x, 8)::Tile) = (int gX, int gY))"
    by auto
  have s12: "\<exists>i<24. ((12, 8)::Tile) = (int i, 8)"
    by (intro exI[of _ 12]) simp
  have s5: "\<exists>i<24. ((5, 8)::Tile) = (int i, 8)"
    by (intro exI[of _ 5]) simp
  have d9: "\<exists>gX<24. \<exists>gY. 9 \<le> gY \<and> gY < 40 \<and> ((12, 9)::Tile) = (int gX, int gY)"
    by (intro exI[of _ 12] conjI exI[of _ 9]) simp_all
  have d10: "\<exists>gX<24. \<exists>gY. 9 \<le> gY \<and> gY < 40 \<and> ((12, 10)::Tile) = (int gX, int gY)"
    by (intro exI[of _ 12] conjI exI[of _ 10]) simp_all
  have "exampleMap (12, 8)
        = Some (newTile exampleTerrain (surfaceClass (nat (fst ((12, 8)::Tile)))) (12, 8))"
    unfolding exampleMap_eq using nd[of 12] s12 by (simp only: if_True if_False)
  then show "exampleMap (12, 8) = Some (newTile exampleTerrain Grass (12, 8))"
    by (simp add: surfaceClass_def surfaceBuildings_def)
  have "exampleMap (5, 8)
        = Some (newTile exampleTerrain (surfaceClass (nat (fst ((5, 8)::Tile)))) (5, 8))"
    unfolding exampleMap_eq using nd[of 5] s5 by (simp only: if_True if_False)
  then show "exampleMap (5, 8) = Some (shopAt (5, 8))"
    by (simp add: surfaceClass_def surfaceBuildings_def newTile_def shopAt_def)
  show "exampleMap (12, 9) = Some (newTile exampleTerrain Dirt (12, 9))"
    unfolding exampleMap_eq using d9 by (simp only: if_True)
  show "exampleMap (12, 10) = Some (newTile exampleTerrain Dirt (12, 10))"
    unfolding exampleMap_eq using d10 by (simp only: if_True)
qed

lemma exampleMap_above:
  assumes "y < 8"
  shows "exampleMap (x, y) = None"
proof -
  have a: "\<not> (\<exists>gX<24. \<exists>gY. 9 \<le> gY \<and> gY < 40 \<and> (x, y) = (int gX, int gY))"
    using assms by auto
  have b: "\<not> (\<exists>i<24. (x, y) = (int i, 8))"
    using assms by auto
  show ?thesis
    unfolding exampleMap_eq using a b by (simp only: if_False)
qed

lemma exampleStart_eq:
  "exampleStart =
     \<lparr>player_x = 600, player_y = 350, speed = defaultSpeed, speedMultiplier = 1,
      tickEnabled = True, canMove = True, moving = False, wasMoving = False,
      isStopping = False, targetPos = (600, 350), tile = (12, 7), minetile = None,
      money = 300, chargeReq = 20, charge = 0, maxFuel = 10, tank = 0, fuel = 10,
      fuelDebounce = False, facingDirection = RIGHT, hold_mapTiles = [], hold_capacity = 10,
      fg_tiles = exampleMap, seed = 1, currentUI = None, waypoints = [],
      overlay = None, events = [], messages = [], timers = [], localStorage = None\<rparr>"
proof -
  have r: "generate exampleTerrain narrowGrid (\<lambda>sd k. 1 / 2) None 1 (newGame narrowGrid 10 None)
           = Inr exampleStart"
    using narrowStart_started[of "\<lambda>sd k. 1 / 2"] by (simp add: startGame_def exampleStart_def)
  have "exampleStart
        = (newGame narrowGrid 10 None)\<lparr>seed := js_or None 1, fg_tiles := exampleMap\<rparr>"
    unfolding exampleMap_def by (rule generate_fields[OF r])
  then show ?thesis
    by (simp add: newGame_def resetPos_def Let_def narrowGrid_def js_round_def js_or_def
        horizonLine_def horizonLineGU_def getTilePositionFromPixelPosition_def)
qed

lemma run_append: "run g (as @ bs) s = run g bs (run g as s)"
  by (simp add: run_def)

lemma run_Cons: "run g (a # as) s = run g as (step g a s)"
  by (simp add: run_def)

lemma run_Nil: "run g [] s = s"
  by (simp add: run_def)

lemma reachable_run:
  assumes "reachable tr g s"
  shows "reachable tr g (run g acts s)"
proof (induction acts rule: rev_induct)
  case Nil
  then show ?case using assms by (simp add: run_def)
next
  case (snoc a acts)
  then show ?case by (simp add: run_snoc reachable.next_step)
qed

lemma exampleStart_reachable: "reachable exampleTerrain narrowGrid exampleStart"
  unfolding exampleStart_def by (rule reachable.start[OF narrowStart_started])

lemma exampleStart_charged:
  "run narrowGrid (map (Tick [''ArrowDown'']) (replicate 21 16)) exampleStart
   = exampleStart\<lparr>facingDirection := DOWN, charge := 21, wasMoving := False\<rparr>"
proof -
  have "run narrowGrid (map (Tick [''ArrowDown'']) (replicate 21 16)) exampleStart
        = exampleStart\<lparr>facingDirection := DOWN,
            charge := charge exampleStart + real (length (replicate 21 (16::real))),
            wasMoving := False\<rparr>"
    by (rule charging_run[where mt = "newTile exampleTerrain Grass (12, 8)"])
       (simp_all add: exampleStart_eq exampleMap_cells checkDirection_def neighbour_def)
  then show ?thesis by (simp add: exampleStart_eq)
qed

lemmas tick_eval = step_def tick_def pollInput_def handleInput_def kpCharge_def commitMove_def
  nextTarget_def neighbour_def checkDirection_def moveStep_def drainFuel_def updateFuel_def
  performMovement_def movementComplete_def arrive_def dispatchEvent_def onPlayerMove_def
  updateWasMoving_def outOfFuel_def addMapTile_def getTilePositionFromPixelPosition_def
  horizonLine_def horizonLineGU_def defaultSpeed_def narrowGrid_def Let_def

lemma exampleStart_surface:
  "run narrowGrid surfaceRun exampleStart
   = exampleStart\<lparr>facingDirection := DOWN, charge := 21, player_y := 400,
       targetPos := (600, 400), tile := (12, 8), isStopping := True,
       speed := 265 / 1000 * defaultSpeed,
       hold_mapTiles := [\<lparr>item_name = ''Grass'', item_value = 0\<rparr>],
       fg_tiles := exampleMap((12, 8) := None),
       events := [TileDestroy (12, 8), TileMove (12, 8)]\<rparr>"
  unfolding surfaceRun_def run_append exampleStart_charged
  by (simp add: run_Cons run_Nil exampleStart_eq exampleMap_cells newTile_def exampleTerrain_def
      tick_eval)

lemma exampleStart_surface_fields:
  "tickEnabled (run narrowGrid surfaceRun exampleStart)"
  "\<not> moving (run narrowGrid surfaceRun exampleStart)"
  "canMove (run narrowGrid surfaceRun exampleStart)"
  "fuel (run narrowGrid surfaceRun exampleStart) = 10"
  "charge (run narrowGrid surfaceRun exampleStart) = 21"
  "chargeReq (run narrowGrid surfaceRun exampleStart) = 20"
  "player_x (run narrowGrid surfaceRun exampleStart) = 600"
  "player_y (run narrowGrid surfaceRun exampleStart) = 400"
  "targetPos (run narrowGrid surfaceRun exampleStart) = (600, 400)"
  "tile (run narrowGrid surfaceRun exampleStart) = (12, 8)"
  "speedMultiplier (run narrowGrid surfaceRun exampleStart) = 1"
  "fg_tiles (run narrowGrid surfaceRun exampleStart) (12, 9)
     = Some (newTile exampleTerrain Dirt (12, 9))"
  "fg_tiles (run narrowGrid surfaceRun exampleStart) (12, 7) = None"
  unfolding exampleStart_surface
  by (simp_all add: exampleStart_eq exampleMap_cells exampleMap_above)

lemma exampleStart_shaft:
  "tickEnabled (run narrowGrid shaftRun exampleStart)"
  "\<not> moving (run narrowGrid shaftRun exampleStart)"
  "canMove (run narrowGrid shaftRun exampleStart)"
  "fuel (run narrowGrid shaftRun exampleStart) = 10 - 10 / 51"
  "charge (run narrowGrid shaftRun exampleStart) = 21"
  "player_y (run narrowGrid shaftRun exampleStart) = 450"
  "targetPos (run narrowGrid shaftRun exampleStart) = (600, 450)"
  "tile (run narrowGrid shaftRun exampleStart) = (12, 9)"
  "fg_tiles (run narrowGrid shaftRun exampleStart) (12, 8) = None"
  "speed (run narrowGrid shaftRun exampleStart) = 265 / 1000 * defaultSpeed"
  unfolding shaftRun_def run_append exampleStart_surface
  by (simp_all add: run_Cons run_Nil exampleStart_eq exampleMap_cells newTile_def
      exampleTerrain_def tick_eval)

lemma exampleStart_drained:
  "tickEnabled (run narrowGrid drainRun exampleStart)"
  "moving (run narrowGrid drainRun exampleStart)"
  "fuel (run narrowGrid drainRun exampleStart) = - (1 / 51)"
  "minetile (run narrowGrid drainRun exampleStart) = Some (newTile exampleTerrain Dirt (12, 10))"
  "455 < player_y (run narrowGrid drainRun exampleStart)"
  "\<not> fuelDebounce (run narrowGrid drainRun exampleStart)"
  unfolding drainRun_def run_append exampleStart_surface
  by (simp_all add: run_Cons run_Nil exampleStart_eq exampleMap_cells newTile_def
      exampleTerrain_def tick_eval)

lemma exampleStart_dug:
  "charge (run narrowGrid digRun exampleStart) = 21"
  "\<not> moving (run narrowGrid digRun exampleStart)"
  "canMove (run narrowGrid digRun exampleStart)"
  "\<not> fuelDebounce (run narrowGrid digRun exampleStart)"
  "tickEnabled (run narrowGrid digRun exampleStart)"
  "fuel (run narrowGrid digRun exampleStart) < 0"
  "maxFuel (run narrowGrid digRun exampleStart) = 10"
  "timers (run narrowGrid digRun exampleStart) = []"
  "player_y (run narrowGrid digRun exampleStart) = 450"
  "money (run narrowGrid digRun exampleStart) = 300"
  unfolding digRun_def run_append exampleStart_charged
  by (simp_all add: run_Cons run_Nil exampleStart_eq exampleMap_cells newTile_def exampleTerrain_def tick_eval)

lemma exampleStart_outOfFuel_eq:
  "run narrowGrid outOfFuelRun exampleStart = outOfFuel (run narrowGrid digRun exampleStart)"
  using exampleStart_dug(5,6)
  by (simp add: outOfFuelRun_def run_append run_Cons run_Nil step_def tick_def)

lemma exampleStart_outOfFuel:
  "charge (run narrowGrid outOfFuelRun exampleStart) = 21"
  "\<not> moving (run narrowGrid outOfFuelRun exampleStart)"
  "\<not> canMove (run narrowGrid outOfFuelRun exampleStart)"
  "fuelDebounce (run narrowGrid outOfFuelRun exampleStart)"
  "tickEnabled (run narrowGrid outOfFuelRun exampleStart)"
  "fuel (run narrowGrid outOfFuelRun exampleStart) < 0"
  unfolding exampleStart_outOfFuel_eq using exampleStart_dug
  by (simp_all add: outOfFuel_def)

section \<open>Claim C2: fuel consumption\<close>

lemma tick_fuel_moving:
  assumes "tickEnabled s" "0 < fuel s" "moving (pollInput g pressedKeys s)"
  shows "fuel (tick g pressedKeys delta s) = fuel (drainFuel g delta (pollInput g pressedKeys s))"
  using assms by (simp add: tick_def Let_def)

lemma tick_fuel_above:
  assumes "\<not> belowBand g s"
  shows "fuel (tick g pressedKeys delta s) = fuel s"
  using assms
  by (simp add: belowBand_def tick_def Let_def outOfFuel_def drainFuel_def)

lemma tick_fuel_empty:
  assumes "fuel s \<le> 0"
  shows "fuel (tick g pressedKeys delta s) = fuel s"
  using assms by (simp add: tick_def outOfFuel_def)

text \<open>
  C2 (as amended). In every reachable state, on every tick that starts with fuel left
  (\<open>fuel > 0\<close>) and on which the player is moving once the keys are polled, with the
  player below the tolerance band (\<open>y > horizonLine - tileSize + 5\<close>), the fuel
  afterwards is the fuel before minus \<open>(1/5100) * delta\<close> when a tile is being mined
  (\<open>minetile\<close> is set) and minus \<open>(1/7000) * delta\<close> otherwise, which is strictly less
  for a positive elapsed time; on every tick with the player at or above the band the
  fuel is unchanged.
\<close>

theorem C2_fuel_drain:
  assumes "reachable tr g s"
  shows "(0 < fuel s \<and> moving (pollInput g pressedKeys s) \<and> belowBand g s \<longrightarrow>
      fuel (tick g pressedKeys delta s)
        = fuel s - (if minetile (pollInput g pressedKeys s) \<noteq> None
                    then (1 / 5100) * delta else (1 / 7000) * delta)
      \<and> (0 < delta \<longrightarrow> fuel (tick g pressedKeys delta s) < fuel s))
   \<and> (\<not> belowBand g s \<longrightarrow> fuel (tick g pressedKeys delta s) = fuel s)"
proof (intro conjI impI)
  assume a: "0 < fuel s \<and> moving (pollInput g pressedKeys s) \<and> belowBand g s"
  have e: "tickEnabled s"
    using reachable_chargeInv[OF assms] by (simp add: chargeInv_def)
  from a e have f: "fuel (tick g pressedKeys delta s)
                = fuel (drainFuel g delta (pollInput g pressedKeys s))"
    by (simp add: tick_fuel_moving)
  from a have b: "player_y (pollInput g pressedKeys s) > horizonLine g - tileSize g + 5"
    by (simp add: belowBand_def)
  show eq: "fuel (tick g pressedKeys delta s)
        = fuel s - (if minetile (pollInput g pressedKeys s) \<noteq> None
                    then (1 / 5100) * delta else (1 / 7000) * delta)"
    using b by (simp add: f drainFuel_def updateFuel_def)
  assume "0 < delta"
  then show "fuel (tick g pressedKeys delta s) < fuel s"
    by (simp add: eq)
next
  assume "\<not> belowBand g s"
  then show "fuel (tick g pressedKeys delta s) = fuel s"
    by (rule tick_fuel_above)
qed

lemma exampleStart_surface_down:
  "moving (pollInput narrowGrid [''ArrowDown''] (run narrowGrid surfaceRun exampleStart))"
  "minetile (pollInput narrowGrid [''ArrowDown''] (run narrowGrid surfaceRun exampleStart))
     = Some (newTile exampleTerrain Dirt (12, 9))"
  "belowBand narrowGrid (run narrowGrid surfaceRun exampleStart)"
  unfolding exampleStart_surface
  by (simp_all add: exampleStart_eq exampleMap_cells belowBand_def tick_eval)

lemma exampleStart_shaft_up:
  "moving (pollInput narrowGrid [''ArrowUp''] (run narrowGrid shaftRun exampleStart))"
  "minetile (pollInput narrowGrid [''ArrowUp''] (run narrowGrid shaftRun exampleStart)) = None"
  "belowBand narrowGrid (run narrowGrid shaftRun exampleStart)"
  unfolding shaftRun_def run_append exampleStart_surface
  by (simp_all add: run_Cons run_Nil exampleStart_eq exampleMap_cells newTile_def
      exampleTerrain_def belowBand_def tick_eval)

lemma exampleStart_above:
  "\<not> belowBand narrowGrid exampleStart"
  "fuel exampleStart = 10"
  by (simp_all add: exampleStart_eq belowBand_def narrowGrid_def horizonLine_def
      horizonLineGU_def)

theorem C2_fuel_drain_witness:
  "reachable exampleTerrain narrowGrid (run narrowGrid surfaceRun exampleStart)
   \<and> 0 < fuel (run narrowGrid surfaceRun exampleStart)
   \<and> moving (pollInput narrowGrid [''ArrowDown''] (run narrowGrid surfaceRun exampleStart))
   \<and> belowBand narrowGrid (run narrowGrid surfaceRun exampleStart)
   \<and> fuel (tick narrowGrid [''ArrowDown''] 16 (run narrowGrid surfaceRun exampleStart))
       = 10 - 16 / 5100
   \<and> fuel (tick narrowGrid [''ArrowDown''] 16 (run narrowGrid surfaceRun exampleStart))
       < fuel (run narrowGrid surfaceRun exampleStart)
   \<and> reachable exampleTerrain narrowGrid (run narrowGrid shaftRun exampleStart)
   \<and> 0 < fuel (run narrowGrid shaftRun exampleStart)
   \<and> moving (pollInput narrowGrid [''ArrowUp''] (run narrowGrid shaftRun exampleStart))
   \<and> belowBand narrowGrid (run narrowGrid shaftRun exampleStart)
   \<and> fuel (tick narrowGrid [''ArrowUp''] 16 (run narrowGrid shaftRun exampleStart))
       = 10 - 10 / 51 - 16 / 7000
   \<and> reachable exampleTerrain narrowGrid exampleStart
   \<and> \<not> belowBand narrowGrid exampleStart
   \<and> fuel (tick narrowGrid [''ArrowRight''] 16 exampleStart) = 10"
  using C2_fuel_drain[OF reachable_run[OF exampleStart_reachable, of surfaceRun],
          of "[''ArrowDown'']" 16]
        C2_fuel_drain[OF reachable_run[OF exampleStart_reachable, of shaftRun],
          of "[''ArrowUp'']" 16]
        C2_fuel_drain[OF exampleStart_reachable, of "[''ArrowRight'']" 16]
        reachable_run[OF exampleStart_reachable, of surfaceRun]
        reachable_run[OF exampleStart_reachable, of shaftRun]
        exampleStart_reachable
  by (simp add: exampleStart_surface_down exampleStart_shaft_up exampleStart_above
      exampleStart_surface_fields(4) exampleStart_shaft(4))

text \<open>
  The claim as stated, without the condition on the fuel, fails in a reachable state:
  after \<open>drainRun\<close> the player is moving into the dirt cell (12, 10), below the band,
  with a tile being mined and the fuel at \<open>-1/51\<close>; the next frame of 16 ms runs
  \<open>outOfFuel\<close> at the test \<open>fuel <= 0\<close> and leaves the fuel as it is.
\<close>

theorem C2_no_drain_on_empty_tank:
  "reachable exampleTerrain narrowGrid (run narrowGrid drainRun exampleStart)
   \<and> moving (run narrowGrid drainRun exampleStart)
   \<and> moving (pollInput narrowGrid [] (run narrowGrid drainRun exampleStart))
   \<and> belowBand narrowGrid (run narrowGrid drainRun exampleStart)
   \<and> minetile (run narrowGrid drainRun exampleStart) \<noteq> None
   \<and> fuel (run narrowGrid drainRun exampleStart) = - (1 / 51)
   \<and> fuel (tick narrowGrid [] 16 (run narrowGrid drainRun exampleStart))
       = fuel (run narrowGrid drainRun exampleStart)
   \<and> \<not> fuel (tick narrowGrid [] 16 (run narrowGrid drainRun exampleStart))
         < fuel (run narrowGrid drainRun exampleStart)"
proof -
  let ?s = "run narrowGrid drainRun exampleStart"
  have r: "reachable exampleTerrain narrowGrid ?s"
    by (rule reachable_run[OF exampleStart_reachable])
  have b: "belowBand narrowGrid ?s"
    using exampleStart_drained(5)
    by (simp add: belowBand_def narrowGrid_def horizonLine_def horizonLineGU_def)
  have p: "moving (pollInput narrowGrid [] ?s)"
    using exampleStart_drained(2) by (simp add: pollInput_def)
  have f: "fuel (tick narrowGrid [] 16 ?s) = fuel ?s"
    by (rule tick_fuel_empty) (simp add: exampleStart_drained(3))
  show ?thesis
    using r b p f exampleStart_drained(2,3,4) by simp
qed

section \<open>Claim C3: the charge counter\<close>

text \<open>
  C3 (as amended). In every reachable state the charge is at most \<open>chargeReq + 1\<close>;
  and on any tick of a reachable state where no direction key is pressed, the player
  is not moving, is able to move (\<open>canMove\<close>) and has fuel left, the charge is 0
  after the tick.
\<close>

theorem C3_charge_bound_and_reset:
  assumes "reachable tr g s"
  shows "charge s \<le> chargeReq s + 1
         \<and> (checkDirection pressedKeys = None \<and> \<not> moving s \<and> canMove s \<and> 0 < fuel s
            \<longrightarrow> charge (tick g pressedKeys delta s) = 0)"
proof -
  have inv: "chargeInv s"
    using assms by (rule reachable_chargeInv)
  then have "charge s \<le> chargeReq s + 1"
    by (simp add: chargeInv_def)
  moreover have "checkDirection pressedKeys = None \<and> \<not> moving s \<and> canMove s \<and> 0 < fuel s
            \<longrightarrow> charge (tick g pressedKeys delta s) = 0"
    using inv by (auto simp add: chargeInv_def intro: idle_tick_charge)
  ultimately show ?thesis by simp
qed

text \<open>After one frame with DOWN held at the start position the charge is 1; a frame
  without keys resets it.\<close>

lemma exampleStart_one_tick:
  "step narrowGrid (Tick [''ArrowDown''] 16) exampleStart
   = exampleStart\<lparr>facingDirection := DOWN, charge := 1, wasMoving := False\<rparr>"
proof -
  have "tick narrowGrid [''ArrowDown''] 16 exampleStart
        = exampleStart\<lparr>facingDirection := DOWN, charge := charge exampleStart + 1,
            wasMoving := False\<rparr>"
    by (rule charging_tick[where mt = "newTile exampleTerrain Grass (12, 8)"])
       (simp_all add: exampleStart_eq exampleMap_cells checkDirection_def neighbour_def)
  then show ?thesis by (simp add: step_def exampleStart_eq)
qed

theorem C3_charge_bound_and_reset_witness:
  "reachable exampleTerrain narrowGrid (step narrowGrid (Tick [''ArrowDown''] 16) exampleStart)
   \<and> charge (step narrowGrid (Tick [''ArrowDown''] 16) exampleStart) = 1
   \<and> chargeReq (step narrowGrid (Tick [''ArrowDown''] 16) exampleStart) = 20
   \<and> checkDirection [] = None
   \<and> charge (tick narrowGrid [] 16 (step narrowGrid (Tick [''ArrowDown''] 16) exampleStart)) = 0"
proof -
  have r: "reachable exampleTerrain narrowGrid
             (step narrowGrid (Tick [''ArrowDown''] 16) exampleStart)"
    by (rule reachable.next_step[OF exampleStart_reachable])
  have f: "charge (step narrowGrid (Tick [''ArrowDown''] 16) exampleStart) = 1"
    "chargeReq (step narrowGrid (Tick [''ArrowDown''] 16) exampleStart) = 20"
    "\<not> moving (step narrowGrid (Tick [''ArrowDown''] 16) exampleStart)"
    "canMove (step narrowGrid (Tick [''ArrowDown''] 16) exampleStart)"
    "0 < fuel (step narrowGrid (Tick [''ArrowDown''] 16) exampleStart)"
    "checkDirection [] = None"
    unfolding exampleStart_one_tick
    by (simp_all add: exampleStart_eq checkDirection_def)
  from C3_charge_bound_and_reset[OF r, of "[]" 16] r f show ?thesis
    by simp
qed

text \<open>
  C3 as stated fails in the out-of-fuel sequence: after the run that digs down until
  the fuel is used up, the state is reachable, the player is not moving and no key
  is pressed, and the tick leaves the charge at 21.
\<close>

theorem C3_charge_kept_when_out_of_fuel:
  "reachable exampleTerrain narrowGrid (run narrowGrid outOfFuelRun exampleStart)
   \<and> checkDirection [] = None
   \<and> \<not> moving (run narrowGrid outOfFuelRun exampleStart)
   \<and> charge (tick narrowGrid [] 16 (run narrowGrid outOfFuelRun exampleStart)) = 21"
proof -
  have "tick narrowGrid [] 16 (run narrowGrid outOfFuelRun exampleStart)
        = run narrowGrid outOfFuelRun exampleStart"
    using exampleStart_outOfFuel(4,5,6) by (simp add: tick_def outOfFuel_def)
  then show ?thesis
    using exampleStart_outOfFuel(1,2) reachable_run[OF exampleStart_reachable]
    by (simp add: checkDirection_def)
qed

section \<open>Claim C5: moving onto a building\<close>

lemma stuck_tick:
  assumes "tickEnabled s" "0 < fuel s" "moving s" "speed s = 0"
    and "facingDirection s = DOWN" "player_y s < snd (targetPos s)"
    and "\<not> belowBand g s"
  shows "tick g pressedKeys delta s = s\<lparr>wasMoving := True\<rparr>"
  using assms
  by (simp add: tick_def pollInput_def moveStep_def drainFuel_def performMovement_def
      movementComplete_def updateWasMoving_def belowBand_def Let_def)

lemma stuck_ticks:
  assumes "tickEnabled s" "0 < fuel s" "moving s" "speed s = 0"
    and "facingDirection s = DOWN" "player_y s < snd (targetPos s)"
    and "\<not> belowBand g s" "wasMoving s"
  shows "run g (frames fs) s = s"
  using assms
proof (induction fs)
  case Nil
  then show ?case by (simp add: frames_def run_Nil)
next
  case (Cons f fs)
  obtain k d where f: "f = (k, d)" by (cases f)
  have "tick g k d s = s\<lparr>wasMoving := True\<rparr>"
    using Cons.prems by (intro stuck_tick) simp_all
  then have "tick g k d s = s" using Cons.prems(8) by simp
  then show ?case using Cons by (simp add: frames_def run_Cons step_def f)
qed

lemma exampleStart_walk:
  "run narrowGrid
     [Tick [''ArrowLeft''] 250, Tick [''ArrowLeft''] 250, Tick [''ArrowLeft''] 250,
      Tick [''ArrowLeft''] 250, Tick [''ArrowLeft''] 250, Tick [''ArrowLeft''] 250,
      Tick [''ArrowLeft''] 250] exampleStart
   = exampleStart\<lparr>player_x := 250, isStopping := True, targetPos := (250, 350),
       tile := (5, 7), charge := 7, facingDirection := LEFT,
       events := [TileMove (11, 7), TileMove (10, 7), TileMove (9, 7), TileMove (8, 7),
                  TileMove (7, 7), TileMove (6, 7), TileMove (5, 7)]\<rparr>"
  by (simp add: run_Cons run_Nil exampleStart_eq exampleMap_above tick_eval)

lemma exampleStart_over_shop:
  "run narrowGrid
     ([Tick [''ArrowLeft''] 250, Tick [''ArrowLeft''] 250, Tick [''ArrowLeft''] 250,
       Tick [''ArrowLeft''] 250, Tick [''ArrowLeft''] 250, Tick [''ArrowLeft''] 250,
       Tick [''ArrowLeft''] 250]
      @ map (Tick [''ArrowDown'']) (replicate 14 16)) exampleStart
   = exampleStart\<lparr>player_x := 250, isStopping := True, targetPos := (250, 350),
       tile := (5, 7), charge := 21, facingDirection := DOWN,
       events := [TileMove (11, 7), TileMove (10, 7), TileMove (9, 7), TileMove (8, 7),
                  TileMove (7, 7), TileMove (6, 7), TileMove (5, 7)]\<rparr>"
proof -
  let ?s = "exampleStart\<lparr>player_x := 250, isStopping := True, targetPos := (250, 350),
       tile := (5, 7), charge := 7, facingDirection := LEFT,
       events := [TileMove (11, 7), TileMove (10, 7), TileMove (9, 7), TileMove (8, 7),
                  TileMove (7, 7), TileMove (6, 7), TileMove (5, 7)]\<rparr>"
  have "run narrowGrid (map (Tick [''ArrowDown'']) (replicate 14 16)) ?s
        = ?s\<lparr>facingDirection := DOWN, charge := charge ?s + real (length (replicate 14 (16::real))),
             wasMoving := False\<rparr>"
    by (rule charging_run[where mt = "shopAt (5, 8)"])
       (simp_all add: exampleStart_eq exampleMap_cells checkDirection_def neighbour_def)
  then show ?thesis
    unfolding run_append exampleStart_walk by (simp add: exampleStart_eq)
qed

lemma exampleStart_stuck:
  "run narrowGrid toShopRun exampleStart
   = exampleStart\<lparr>player_x := 250, isStopping := False, targetPos := (250, 400),
       tile := (5, 7), charge := 21, facingDirection := DOWN, moving := True,
       wasMoving := True, speed := 0, minetile := Some (shopAt (5, 8)),
       events := [TileMove (11, 7), TileMove (10, 7), TileMove (9, 7), TileMove (8, 7),
                  TileMove (7, 7), TileMove (6, 7), TileMove (5, 7)]\<rparr>"
  unfolding toShopRun_def append_assoc[symmetric]
  unfolding run_append[of _ _ "[Tick [''ArrowDown''] 16]"] exampleStart_over_shop
  by (simp add: run_Cons run_Nil exampleStart_eq exampleMap_cells shopAt_def shopProps_def
      tick_eval)

text \<open>
  C5 fails on the code. In a fresh session on the narrow grid the player walks seven
  cells to the left and holds DOWN above the Shop at (5, 8), a tile that \<open>generate\<close>
  has placed (\<open>interactable\<close>, thickness 0). The 15th frame with DOWN held commits the
  move with the speed computed from the building's thickness: the speed is 0, the
  player is moving towards (250, 400) and stays at (250, 350); whatever frames follow,
  nothing changes any more: the player never arrives, no \<open>tilemove\<close> for the building
  is dispatched and no overlay opens.
\<close>

theorem C5_speed_zero_at_building:
  "startGame exampleTerrain narrowGrid (\<lambda>sd k. 1 / 2) 1 10 None = Inr exampleStart
   \<and> fg_tiles exampleStart (5, 8) = Some (shopAt (5, 8))
   \<and> interactable (properties (shopAt (5, 8)))
   \<and> speed (run narrowGrid toShopRun exampleStart) = 0
   \<and> moving (run narrowGrid toShopRun exampleStart)
   \<and> targetPos (run narrowGrid toShopRun exampleStart) = (250, 400)
   \<and> player_y (run narrowGrid toShopRun exampleStart) = 350
   \<and> run narrowGrid (toShopRun @ frames fs) exampleStart
       = run narrowGrid toShopRun exampleStart
   \<and> TileMove (5, 8) \<notin> set (events (run narrowGrid toShopRun exampleStart))
   \<and> overlay (run narrowGrid toShopRun exampleStart) = None"
proof -
  let ?s = "run narrowGrid toShopRun exampleStart"
  have g: "startGame exampleTerrain narrowGrid (\<lambda>sd k. 1 / 2) 1 10 None = Inr exampleStart"
    unfolding exampleStart_def by (rule narrowStart_started)
  have m: "fg_tiles exampleStart (5, 8) = Some (shopAt (5, 8))"
    "interactable (properties (shopAt (5, 8)))"
    using exampleMap_cells(4) by (simp_all add: exampleMap_def shopAt_def shopProps_def)
  have f: "tickEnabled ?s" "0 < fuel ?s" "moving ?s" "speed ?s = 0" "facingDirection ?s = DOWN"
    "player_y ?s < snd (targetPos ?s)" "\<not> belowBand narrowGrid ?s" "wasMoving ?s"
    "targetPos ?s = (250, 400)" "player_y ?s = 350"
    "TileMove (5, 8) \<notin> set (events ?s)" "overlay ?s = None"
    unfolding exampleStart_stuck
    by (simp_all add: exampleStart_eq belowBand_def narrowGrid_def horizonLine_def
          horizonLineGU_def)
  have "run narrowGrid (frames fs) ?s = ?s"
    using f(1-8) by (rule stuck_ticks)
  then show ?thesis
    using g m f by (simp add: run_append)
qed

section \<open>Claim C6: running out of fuel\<close>

lemma outOfFuel_fields [simp]:
  "fuel (outOfFuel s) = fuel s"
  "maxFuel (outOfFuel s) = maxFuel s"
  "money (outOfFuel s) = money s"
  "tickEnabled (outOfFuel s) = tickEnabled s"
  by (simp_all add: outOfFuel_def)

lemma recovery_tick:
  assumes "fuelDebounce s" "\<not> canMove s" "\<not> moving s"
  shows "tick g pressedKeys delta s = s \<or> tick g pressedKeys delta s = s\<lparr>wasMoving := False\<rparr>"
  using assms by (simp add: tick_def pollInput_def outOfFuel_def updateWasMoving_def Let_def)

lemma recovery_frames:
  assumes "fuelDebounce s" "\<not> canMove s" "\<not> moving s"
  shows "\<exists>w. run g (frames fs) s = s\<lparr>wasMoving := w\<rparr>"
  using assms
proof (induction fs arbitrary: s)
  case Nil
  have "run g (frames []) s = s\<lparr>wasMoving := wasMoving s\<rparr>"
    by (simp add: frames_def run_def)
  then show ?case by (rule exI)
next
  case (Cons f fs)
  obtain k d where f: "f = (k, d)" by (cases f)
  from recovery_tick[OF Cons.prems, of g k d]
  have "tick g k d s = s\<lparr>wasMoving := wasMoving s\<rparr> \<or> tick g k d s = s\<lparr>wasMoving := False\<rparr>"
    by simp
  then obtain w where w: "tick g k d s = s\<lparr>wasMoving := w\<rparr>"
    by blast
  have "\<exists>w'. run g (frames fs) (s\<lparr>wasMoving := w\<rparr>) = s\<lparr>wasMoving := w\<rparr>\<lparr>wasMoving := w'\<rparr>"
    using Cons.prems by (intro Cons.IH) simp_all
  then show ?case
    by (simp add: frames_def run_Cons step_def f w)
qed

lemma recoveryInv_tick: "recoveryInv s \<Longrightarrow> recoveryInv (tick g k d s)"
proof (cases "fuelDebounce s")
  case True
  assume inv: "recoveryInv s"
  with True have p: "\<not> canMove s" "\<not> moving s" by (simp_all add: recoveryInv_def)
  from recovery_tick[OF True p, of g k d] inv show ?thesis
    by (auto simp add: recoveryInv_def)
next
  case False
  assume inv: "recoveryInv s"
  with False have t: "timers s = []" by (simp add: recoveryInv_def)
  have m: "\<not> fuelDebounce (updateWasMoving (moveStep g d (pollInput g k s)))"
    "timers (updateWasMoving (moveStep g d (pollInput g k s))) = []"
    "\<not> fuelDebounce (updateWasMoving (pollInput g k s))"
    "timers (updateWasMoving (pollInput g k s)) = []"
    using False t by simp_all
  have o: "\<And>s'. \<not> fuelDebounce s' \<Longrightarrow> timers s' = [] \<Longrightarrow> recoveryInv (outOfFuel s')"
    by (simp add: recoveryInv_def outOfFuel_def)
  have o1: "recoveryInv (outOfFuel (pollInput g k s))"
    using False t by (intro o) simp_all
  show ?thesis
    using inv False t m o[of s] o1
    by (simp add: tick_def Let_def) (simp add: recoveryInv_def)
qed

lemma resetPos_recovery [simp]:
  "fuelDebounce (resetPos g s) = fuelDebounce s"
  "canMove (resetPos g s) = canMove s"
  "moving (resetPos g s) = moving s"
  "timers (resetPos g s) = timers s"
  "fuel (resetPos g s) = fuel s"
  "maxFuel (resetPos g s) = maxFuel s"
  by (simp_all add: resetPos_def Let_def)

lemma recoveryInv_fireTimer: "recoveryInv s \<Longrightarrow> recoveryInv (fireTimer g s)"
  by (cases "fuelDebounce s")
     (auto simp add: recoveryInv_def fireTimer_def updateFuel_def Let_def)

lemma handlePurchase_recovery [simp]:
  "fuelDebounce (handlePurchase item answer s) = fuelDebounce s"
  "canMove (handlePurchase item answer s) = canMove s"
  "moving (handlePurchase item answer s) = moving s"
  "timers (handlePurchase item answer s) = timers s"
  by (simp_all add: handlePurchase_def purchased_def showMessage_def closeUI_def Let_def
        split: ItemId.split)

lemma applySaveData_recovery [simp]:
  "fuelDebounce (snd (applySaveData g saveData s)) = fuelDebounce s"
  "canMove (snd (applySaveData g saveData s)) = canMove s"
  "moving (snd (applySaveData g saveData s)) = moving s"
  "timers (snd (applySaveData g saveData s)) = timers s"
  by (simp_all add: applySaveData_def Let_def split: option.split)

lemma recoveryInv_step: "recoveryInv s \<Longrightarrow> recoveryInv (step g a s)"
proof (cases a)
  case (Tick k delta)
  then show "recoveryInv s \<Longrightarrow> ?thesis" by (simp add: step_def recoveryInv_tick)
next
  case Timer
  then show "recoveryInv s \<Longrightarrow> ?thesis" by (simp add: step_def recoveryInv_fireTimer)
next
  case (ClickItem i answer)
  then show "recoveryInv s \<Longrightarrow> ?thesis"
    by (simp add: step_def recoveryInv_def split: option.split)
next
  case ClickClose
  then show "recoveryInv s \<Longrightarrow> ?thesis"
    by (simp add: step_def recoveryInv_def closeUI_def split: option.split)
next
  case AutoLoad
  then show "recoveryInv s \<Longrightarrow> ?thesis"
    by (simp add: step_def recoveryInv_def split: option.split)
qed

lemma recoveryInv_startGame:
  assumes "startGame tr g prng now capacity store = Inr s"
  shows "recoveryInv s"
  using assms
  by (auto simp add: recoveryInv_def startGame_def generate_def newGame_def resetPos_def Let_def
      split: sum.splits)

lemma reachable_recoveryInv: "reachable tr g s \<Longrightarrow> recoveryInv s"
  by (induction rule: reachable.induct) (simp_all add: recoveryInv_startGame recoveryInv_step)

lemma recovery_completes:
  assumes "\<not> fuelDebounce s" "timers s = []"
  shows "fuel (run g (frames f1 @ [Timer] @ frames f2 @ [Timer] @ frames f3 @ [Timer]) (outOfFuel s))
           = maxFuel (run g (frames f1 @ [Timer] @ frames f2 @ [Timer] @ frames f3 @ [Timer]) (outOfFuel s))"
    and "canMove (run g (frames f1 @ [Timer] @ frames f2 @ [Timer] @ frames f3 @ [Timer]) (outOfFuel s))"
    and "\<not> fuelDebounce (run g (frames f1 @ [Timer] @ frames f2 @ [Timer] @ frames f3 @ [Timer]) (outOfFuel s))"
proof -
  let ?s0 = "outOfFuel s"
  have s0: "fuelDebounce ?s0" "\<not> canMove ?s0" "\<not> moving ?s0" "timers ?s0 = [FadeOutDone]"
    using assms by (simp_all add: outOfFuel_def)
  obtain w1 where w1: "run g (frames f1) ?s0 = ?s0\<lparr>wasMoving := w1\<rparr>"
    using recovery_frames[OF s0(1-3)] by blast
  let ?s1 = "fireTimer g (?s0\<lparr>wasMoving := w1\<rparr>)"
  have s1: "fuelDebounce ?s1" "\<not> canMove ?s1" "\<not> moving ?s1" "timers ?s1 = [DramaticDelay]"
    "fuel ?s1 = maxFuel ?s1"
    using s0 by (simp_all add: fireTimer_def updateFuel_def Let_def)
  obtain w2 where w2: "run g (frames f2) ?s1 = ?s1\<lparr>wasMoving := w2\<rparr>"
    using recovery_frames[OF s1(1-3)] by blast
  let ?s2 = "fireTimer g (?s1\<lparr>wasMoving := w2\<rparr>)"
  have s2: "fuelDebounce ?s2" "\<not> canMove ?s2" "\<not> moving ?s2" "timers ?s2 = [FadeInDone]"
    "fuel ?s2 = maxFuel ?s2"
    using s1 by (simp_all add: fireTimer_def)
  obtain w3 where w3: "run g (frames f3) ?s2 = ?s2\<lparr>wasMoving := w3\<rparr>"
    using recovery_frames[OF s2(1-3)] by blast
  let ?s3 = "fireTimer g (?s2\<lparr>wasMoving := w3\<rparr>)"
  have s3: "\<not> fuelDebounce ?s3" "canMove ?s3" "fuel ?s3 = maxFuel ?s3"
    using s2 by (simp_all add: fireTimer_def)
  have r: "run g (frames f1 @ [Timer] @ frames f2 @ [Timer] @ frames f3 @ [Timer]) ?s0 = ?s3"
    by (simp only: run_append run_Cons run_Nil w1 w2 w3 step_def Action.case)
  show "fuel (run g (frames f1 @ [Timer] @ frames f2 @ [Timer] @ frames f3 @ [Timer]) (outOfFuel s))
           = maxFuel (run g (frames f1 @ [Timer] @ frames f2 @ [Timer] @ frames f3 @ [Timer]) (outOfFuel s))"
    and "canMove (run g (frames f1 @ [Timer] @ frames f2 @ [Timer] @ frames f3 @ [Timer]) (outOfFuel s))"
    and "\<not> fuelDebounce (run g (frames f1 @ [Timer] @ frames f2 @ [Timer] @ frames f3 @ [Timer]) (outOfFuel s))"
    unfolding r using s3 by simp_all
qed

text \<open>
  C6. In every reachable state: a tick that finds \<open>fuel \<le> 0\<close> is the out-of-fuel
  handler, and right after it \<open>canMove\<close> and \<open>moving\<close> are false; a trigger while
  \<open>fuelDebounce\<close> is set returns the state as it is (fuel and money included); and
  from a first trigger, once the three timers of the recovery sequence have run out
  (fade-out, delay, fade-in), whatever frames are ticked in between, the fuel equals
  \<open>maxFuel\<close> and \<open>canMove\<close> is true.
\<close>

theorem C6_out_of_fuel:
  assumes "reachable tr g s"
  shows "(tickEnabled s \<and> fuel s \<le> 0 \<longrightarrow>
            tick g pressedKeys delta s = outOfFuel s
            \<and> \<not> canMove (outOfFuel s) \<and> \<not> moving (outOfFuel s))
       \<and> (fuelDebounce s \<longrightarrow> outOfFuel s = s)
       \<and> (\<not> fuelDebounce s \<longrightarrow>
            fuel (run g (frames f1 @ [Timer] @ frames f2 @ [Timer] @ frames f3 @ [Timer])
                    (outOfFuel s))
              = maxFuel (run g (frames f1 @ [Timer] @ frames f2 @ [Timer] @ frames f3 @ [Timer])
                    (outOfFuel s))
            \<and> canMove (run g (frames f1 @ [Timer] @ frames f2 @ [Timer] @ frames f3 @ [Timer])
                    (outOfFuel s)))"
proof (intro conjI impI)
  have inv: "recoveryInv s"
    using assms by (rule reachable_recoveryInv)
  {
    assume a: "tickEnabled s \<and> fuel s \<le> 0"
    then show "tick g pressedKeys delta s = outOfFuel s"
      by (simp add: tick_def)
    show "\<not> canMove (outOfFuel s)" "\<not> moving (outOfFuel s)"
      using inv by (auto simp add: recoveryInv_def outOfFuel_def)
  }
  {
    assume "fuelDebounce s"
    then show "outOfFuel s = s" by (simp add: outOfFuel_def)
  }
  {
    assume d: "\<not> fuelDebounce s"
    with inv have t: "timers s = []" by (simp add: recoveryInv_def)
    show "fuel (run g (frames f1 @ [Timer] @ frames f2 @ [Timer] @ frames f3 @ [Timer])
                    (outOfFuel s))
              = maxFuel (run g (frames f1 @ [Timer] @ frames f2 @ [Timer] @ frames f3 @ [Timer])
                    (outOfFuel s))"
      using d t by (rule recovery_completes(1))
    show "canMove (run g (frames f1 @ [Timer] @ frames f2 @ [Timer] @ frames f3 @ [Timer])
                    (outOfFuel s))"
      using d t by (rule recovery_completes(2))
  }
qed

text \<open>
  The run that digs down until the tank is empty: the next frame triggers the
  handler, a further trigger changes nothing, and three timers later (with a frame
  ticked before each) the tank is full again.
\<close>

theorem C6_out_of_fuel_witness:
  "reachable exampleTerrain narrowGrid (run narrowGrid digRun exampleStart)
   \<and> tickEnabled (run narrowGrid digRun exampleStart)
   \<and> fuel (run narrowGrid digRun exampleStart) \<le> 0
   \<and> \<not> fuelDebounce (run narrowGrid digRun exampleStart)
   \<and> \<not> canMove (tick narrowGrid [''ArrowDown''] 16 (run narrowGrid digRun exampleStart))
   \<and> \<not> moving (tick narrowGrid [''ArrowDown''] 16 (run narrowGrid digRun exampleStart))
   \<and> fuelDebounce (run narrowGrid outOfFuelRun exampleStart)
   \<and> outOfFuel (run narrowGrid outOfFuelRun exampleStart) = run narrowGrid outOfFuelRun exampleStart
   \<and> fuel (run narrowGrid
        (frames [([], 16)] @ [Timer] @ frames [([], 16)] @ [Timer] @ frames [([], 16)] @ [Timer])
        (outOfFuel (run narrowGrid digRun exampleStart)))
      = maxFuel (run narrowGrid
        (frames [([], 16)] @ [Timer] @ frames [([], 16)] @ [Timer] @ frames [([], 16)] @ [Timer])
        (outOfFuel (run narrowGrid digRun exampleStart)))
   \<and> canMove (run narrowGrid
        (frames [([], 16)] @ [Timer] @ frames [([], 16)] @ [Timer] @ frames [([], 16)] @ [Timer])
        (outOfFuel (run narrowGrid digRun exampleStart)))"
  using C6_out_of_fuel[OF reachable_run[OF exampleStart_reachable, of digRun],
          of "[''ArrowDown'']" 16 "[([], 16)]" "[([], 16)]" "[([], 16)]"]
        C6_out_of_fuel[OF reachable_run[OF exampleStart_reachable, of outOfFuelRun],
          of "[''ArrowDown'']" 16 "[([], 16)]" "[([], 16)]" "[([], 16)]"]
        reachable_run[OF exampleStart_reachable, of digRun]
        exampleStart_dug(4,5,6) exampleStart_outOfFuel(4)
  by simp

section \<open>Claim C7: selling the cargo\<close>

lemma totalValue_sum: "totalValue items = sum_list (map item_value items)"
proof -
  have "\<And>acc. foldl (\<lambda>sum it. sum + item_value it) acc items
              = acc + sum_list (map item_value items)"
    by (induction items) simp_all
  then show ?thesis by (simp add: totalValue_def)
qed

lemma sell_all_affordable:
  assumes "item_id item = SellAll" and "price item \<le> money s"
  shows "money (handlePurchase item answer s) = money s + sum_list (map item_value (hold_mapTiles s))"
    and "hold_mapTiles (handlePurchase item answer s) = []"
  using assms
  by (simp_all add: handlePurchase_def purchased_def showMessage_def closeUI_def Let_def
        totalValue_sum)

lemma sell_all_refused:
  assumes "price item > money s"
  shows "handlePurchase item answer s = showMessage (Text ''Not enough money!'') s"
  using assms by (simp add: handlePurchase_def)

text \<open>
  C7 fails on the code. A player with 10 in the purse and two pieces of coal worth
  30 each arrives at the Selling Post; the overlay offers ``2x Coal'' and ``SELL ALL'',
  both for 60. The click on ``SELL ALL'' is refused with ``Not enough money!'': the
  money is still 10 and both pieces are still in the hold.
\<close>

theorem C7_sell_all_refused_when_poor:
  "overlay (handleBuildingInteraction SELLING_POST poorSeller)
     = Some \<lparr>ui_title = ''Selling Post'',
             ui_items = [\<lparr>item_label = CountOf 2 ''Coal'', price = 60, item_id = SellAll,
                           highlight = False\<rparr>,
                         \<lparr>item_label = Plain ''SELL ALL'', price = 60, item_id = SellAll,
                           highlight = True\<rparr>]\<rparr>
   \<and> money (step displayGrid (ClickItem 1 None) (handleBuildingInteraction SELLING_POST poorSeller))
       = 10
   \<and> hold_mapTiles (step displayGrid (ClickItem 1 None)
         (handleBuildingInteraction SELLING_POST poorSeller))
       = [\<lparr>item_name = ''Coal'', item_value = 30\<rparr>, \<lparr>item_name = ''Coal'', item_value = 30\<rparr>]
   \<and> messages (step displayGrid (ClickItem 1 None)
         (handleBuildingInteraction SELLING_POST poorSeller))
       = [Text ''Not enough money!'']"
  by (simp add: poorSeller_def openSellingPost_def createUI_def itemCounts_def totalValue_def
      step_def handlePurchase_def showMessage_def)

section \<open>Claim C8: saving and restoring\<close>

lemma saveThenRestore_nonzero:
  assumes "money s \<noteq> 0" "fuel s \<noteq> 0" "maxFuel s \<noteq> 0" "speedMultiplier s \<noteq> 0"
  shows "\<exists>r. saveThenRestore g s s' = Some r
           \<and> money r = money s \<and> fuel r = fuel s \<and> maxFuel r = maxFuel s \<and> tank r = tank s
           \<and> speedMultiplier r = speedMultiplier s
           \<and> player_x r = player_x s \<and> player_y r = player_y s
           \<and> hold_mapTiles r = hold_mapTiles s \<and> waypoints r = waypoints s"
  using assms
  by (simp add: saveThenRestore_def saveGame_def loadGame_def applySaveData_def js_or_def Let_def)

lemma saveThenRestore_zero_money:
  assumes "money s = 0"
  shows "map_option money (saveThenRestore g s s') = Some 300"
  using assms
  by (simp add: saveThenRestore_def saveGame_def loadGame_def applySaveData_def js_or_def Let_def)

text \<open>
  C8 fails on the code. A player with money 0 saves; loading the save in a fresh
  session restores fuel, tank, position, cargo and waypoints, but the money comes
  back as 300.
\<close>

theorem C8_zero_money_restored_as_300:
  "money brokePlayer = 0
   \<and> map_option money (saveThenRestore displayGrid brokePlayer (newGame displayGrid 10 None))
       = Some 300
   \<and> map_option fuel (saveThenRestore displayGrid brokePlayer (newGame displayGrid 10 None))
       = Some 4
   \<and> map_option hold_mapTiles (saveThenRestore displayGrid brokePlayer (newGame displayGrid 10 None))
       = Some [\<lparr>item_name = ''Dirt'', item_value = 1\<rparr>]"
  by (simp add: brokePlayer_def saveThenRestore_def saveGame_def loadGame_def applySaveData_def
      js_or_def Let_def)

section \<open>Claim C10: the Fuel Station with a full tank\<close>

lemma locked_interaction:
  assumes "currentUI s \<noteq> None"
  shows "currentUI (handleBuildingInteraction b s) = currentUI s"
    and "overlay (handleBuildingInteraction b s) = overlay s"
  using assms by (cases b; simp add: building_defs Let_def)+

lemma ignored_interaction:
  assumes "currentUI s \<noteq> None" and "b \<in> {SHOP, SELLING_POST, FUEL_STATION, TELEPORTER}"
  shows "handleBuildingInteraction b s = s"
  using assms by (auto simp add: building_defs)

lemma locked_onPlayerMove:
  assumes "currentUI s \<noteq> None"
  shows "currentUI (onPlayerMove t s) = currentUI s"
    and "overlay (onPlayerMove t s) = overlay s"
  using assms by (simp_all add: onPlayerMove_def locked_interaction split: option.split)

lemma locked_dispatchEvent:
  assumes "currentUI s \<noteq> None"
  shows "currentUI (dispatchEvent e s) = currentUI s"
    and "overlay (dispatchEvent e s) = overlay s"
  using assms by (cases e; simp add: dispatchEvent_def Let_def locked_onPlayerMove)+

lemma dispatchEvent_TileDestroy_ui [simp]:
  "currentUI (dispatchEvent (TileDestroy t) s) = currentUI s"
  "overlay (dispatchEvent (TileDestroy t) s) = overlay s"
  by (simp_all add: dispatchEvent_def Let_def)

lemma locked_arrive:
  assumes "currentUI s \<noteq> None"
  shows "currentUI (arrive g s) = currentUI s"
    and "overlay (arrive g s) = overlay s"
  using assms
  by (simp_all add: arrive_def Let_def locked_dispatchEvent split: option.split)

lemma locked_moveStep:
  assumes "currentUI s \<noteq> None"
  shows "currentUI (moveStep g delta s) = currentUI s"
    and "overlay (moveStep g delta s) = overlay s"
  using assms by (simp_all add: moveStep_def Let_def locked_arrive)

lemma outOfFuel_ui [simp]:
  "currentUI (outOfFuel s) = currentUI s"
  "overlay (outOfFuel s) = overlay s"
  by (simp_all add: outOfFuel_def)

lemma locked_tick:
  assumes "currentUI s \<noteq> None"
  shows "currentUI (tick g k delta s) = currentUI s"
    and "overlay (tick g k delta s) = overlay s"
  using assms by (simp_all add: tick_def Let_def locked_moveStep)

lemma fireTimer_ui [simp]:
  "currentUI (fireTimer g s) = currentUI s"
  "overlay (fireTimer g s) = overlay s"
proof -
  have "\<And>cb s'. currentUI (runCallback g cb s') = currentUI s'
                \<and> overlay (runCallback g cb s') = overlay s'"
    subgoal for cb s'
      by (cases cb) (simp_all add: Let_def updateFuel_def resetPos_def)
    done
  then show "currentUI (fireTimer g s) = currentUI s" "overlay (fireTimer g s) = overlay s"
    by (simp_all add: fireTimer_def split: list.split)
qed

lemma applySaveData_ui [simp]:
  "currentUI (snd (applySaveData g saveData s)) = currentUI s"
  "overlay (snd (applySaveData g saveData s)) = overlay s"
  by (simp_all add: applySaveData_def Let_def split: option.split)

lemma uiLocked_step: "uiLocked s \<Longrightarrow> uiLocked (step g a s)"
  by (cases a) (simp_all add: uiLocked_def step_def locked_tick split: option.split)

lemma uiLocked_run: "uiLocked s \<Longrightarrow> uiLocked (run g acts s)"
proof (induction acts arbitrary: s)
  case Nil
  then show ?case by (simp add: run_Nil)
next
  case (Cons a acts)
  then show ?case by (simp add: run_Cons uiLocked_step)
qed

lemma openFuelStation_full:
  assumes "currentUI s = None" and "maxFuel s - fuel s \<le> 0"
  shows "handleBuildingInteraction FUEL_STATION s
         = s\<lparr>currentUI := Some ''fuel'',
             messages := messages s @ [Text ''Fuel tank is already full!'']\<rparr>"
  using assms by (simp add: openFuelStation_def showMessage_def Let_def)

text \<open>
  C10 (as amended). The player arrives at the Fuel Station while no building UI is
  open (\<open>currentUI\<close> is null and there is no overlay) and the tank is full
  (\<open>maxFuel - fuel \<le> 0\<close>): the handler sets \<open>currentUI\<close> to ``fuel'', shows its
  message and creates no overlay. After that, whatever happens in the session
  (frames, timers, clicks, loading the save slot), \<open>currentUI\<close> is still ``fuel'' with
  no overlay, and an interaction with the shop, the selling post, the fuel station or
  the teleporter returns the state as it is: no overlay, no message.
\<close>

theorem C10_fuel_station_locks_ui:
  assumes "currentUI s = None" and "overlay s = None" and "maxFuel s - fuel s \<le> 0"
  shows "currentUI (handleBuildingInteraction FUEL_STATION s) = Some ''fuel''
       \<and> overlay (handleBuildingInteraction FUEL_STATION s) = None
       \<and> currentUI (run g acts (handleBuildingInteraction FUEL_STATION s)) = Some ''fuel''
       \<and> overlay (run g acts (handleBuildingInteraction FUEL_STATION s)) = None
       \<and> (\<forall>b \<in> {SHOP, SELLING_POST, FUEL_STATION, TELEPORTER}.
            handleBuildingInteraction b (run g acts (handleBuildingInteraction FUEL_STATION s))
            = run g acts (handleBuildingInteraction FUEL_STATION s))"
proof -
  let ?s = "handleBuildingInteraction FUEL_STATION s"
  have l: "uiLocked ?s"
    unfolding openFuelStation_full[OF assms(1,3)] using assms(2) by (simp add: uiLocked_def)
  then have r: "uiLocked (run g acts ?s)"
    by (rule uiLocked_run)
  then have "currentUI (run g acts ?s) \<noteq> None"
    by (simp add: uiLocked_def)
  then have "\<forall>b \<in> {SHOP, SELLING_POST, FUEL_STATION, TELEPORTER}.
               handleBuildingInteraction b (run g acts ?s) = run g acts ?s"
    using ignored_interaction by blast
  with l r show ?thesis
    by (simp add: uiLocked_def)
qed

lemma fullTank_fields:
  "currentUI fullTank = None" "overlay fullTank = None" "maxFuel fullTank - fuel fullTank \<le> 0"
  by (simp_all add: fullTank_def newGame_def resetPos_def Let_def)

text \<open>A fresh player with a full tank; afterwards a frame, a click on the close
  button, and an arrival at the shop.\<close>

theorem C10_fuel_station_locks_ui_witness:
  "currentUI fullTank = None \<and> overlay fullTank = None \<and> maxFuel fullTank - fuel fullTank \<le> 0
   \<and> currentUI (handleBuildingInteraction FUEL_STATION fullTank) = Some ''fuel''
   \<and> overlay (handleBuildingInteraction FUEL_STATION fullTank) = None
   \<and> handleBuildingInteraction SHOP
        (run displayGrid [Tick [] 16, ClickClose] (handleBuildingInteraction FUEL_STATION fullTank))
      = run displayGrid [Tick [] 16, ClickClose] (handleBuildingInteraction FUEL_STATION fullTank)
   \<and> overlay (handleBuildingInteraction SHOP
        (run displayGrid [Tick [] 16, ClickClose] (handleBuildingInteraction FUEL_STATION fullTank)))
      = None"
  using C10_fuel_station_locks_ui[OF fullTank_fields, of displayGrid "[Tick [] 16, ClickClose]"]
        fullTank_fields
  by simp


text \<open>
  The claim as stated, without the condition that no building UI is open, fails: with
  the Shop overlay open and the tank full, \<open>openFuelStation\<close> returns at its first
  test \<open>if (this.currentUI) return\<close>; \<open>currentUI\<close> stays ``shop'', and after a click
  on the Close button of the overlay an arrival at the Teleporter opens its overlay.
\<close>

theorem C10_not_locked_when_shop_open:
  "maxFuel (handleBuildingInteraction SHOP fullTank)
     - fuel (handleBuildingInteraction SHOP fullTank) \<le> 0
   \<and> currentUI (handleBuildingInteraction SHOP fullTank) = Some ''shop''
   \<and> overlay (handleBuildingInteraction SHOP fullTank) \<noteq> None
   \<and> currentUI (handleBuildingInteraction FUEL_STATION (handleBuildingInteraction SHOP fullTank))
       = Some ''shop''
   \<and> currentUI (run displayGrid [ClickClose]
        (handleBuildingInteraction FUEL_STATION (handleBuildingInteraction SHOP fullTank))) = None
   \<and> currentUI (handleBuildingInteraction TELEPORTER (run displayGrid [ClickClose]
        (handleBuildingInteraction FUEL_STATION (handleBuildingInteraction SHOP fullTank))))
       = Some ''teleporter''
   \<and> overlay (handleBuildingInteraction TELEPORTER (run displayGrid [ClickClose]
        (handleBuildingInteraction FUEL_STATION (handleBuildingInteraction SHOP fullTank))))
       \<noteq> None
   \<and> handleBuildingInteraction TELEPORTER (run displayGrid [ClickClose]
        (handleBuildingInteraction FUEL_STATION (handleBuildingInteraction SHOP fullTank)))
       \<noteq> run displayGrid [ClickClose]
        (handleBuildingInteraction FUEL_STATION (handleBuildingInteraction SHOP fullTank))"
proof -
  let ?s = "handleBuildingInteraction SHOP fullTank"
  have a: "maxFuel ?s - fuel ?s \<le> 0" "currentUI ?s = Some ''shop''" "overlay ?s \<noteq> None"
    using fullTank_fields by (simp_all add: openShop_def createUI_def)
  then have b: "handleBuildingInteraction FUEL_STATION ?s = ?s"
    by (simp add: openFuelStation_def)
  let ?t = "run displayGrid [ClickClose] ?s"
  have c: "currentUI ?t = None"
    using a(3) by (auto simp add: run_Cons run_Nil step_def closeUI_def)
  then have d: "currentUI (handleBuildingInteraction TELEPORTER ?t) = Some ''teleporter''"
    "overlay (handleBuildingInteraction TELEPORTER ?t) \<noteq> None"
    by (simp_all add: openTeleporter_def createUI_def)
  from c d(1) have e: "handleBuildingInteraction TELEPORTER ?t \<noteq> ?t"
    by auto
  show ?thesis
    unfolding b using a c d e by simp
qed

end
